theory Spec2Isabelle
  imports Complex_Main "HOL-Library.Multiset" "HOL-Library.AList" "HOL-Library.Product_Lexorder"
begin

section \<open>Values\<close>

text \<open>
  The dashboard is a Python script over pandas data frames.  A cell of a frame is absent
  (\<open>None\<close>, \<open>NaN\<close>, \<open>NaT\<close>: everything \<open>pd.isna\<close> accepts), a string, a number, a
  Python \<open>bool\<close>, a timestamp (whole seconds since the epoch), a calendar date (days
  since the epoch) or an interval \<open>(lo, hi]\<close> of a categorical column.  Numbers are
  modelled by the reals: floating-point rounding is not part of the model.  Strings are
  sequences of code points below 256.
\<close>

datatype cell =
    NA
  | Str string
  | Num real
  | Bool bool
  | Time int
  | Date int
  | Interval real real

text \<open>
  A Python \<open>float\<close> as the result of a computation that may leave the finite numbers.
\<close>

datatype flt = Fin real | NaN | PInf | NInf

datatype py_error =
    ZeroDivisionError
  | OverflowError
  | ValueError
  | KeyError string
  | AttributeError

definition isna :: "cell \<Rightarrow> bool" where
  "isna x = (x = NA)"

text \<open>The \<open>duplicates\<close> argument of \<open>pd.qcut\<close>.\<close>

datatype duplicates = Raise | Drop

section \<open>Library functions the script calls\<close>

text \<open>
  Functions of Python and pandas whose code is not part of the script are parameters of
  the model, collected in one record:
  \<^item> \<open>py_float s\<close> is \<open>float(s)\<close> on a string, \<open>None\<close> when it raises \<open>ValueError\<close>;
  \<^item> \<open>py_repr x\<close> is \<open>str(x)\<close> for a cell that is neither a string nor a \<open>bool\<close>;
  \<^item> \<open>to_num x\<close> is what \<open>pd.to_numeric(..., errors="coerce")\<close> makes of a cell that
    is neither absent, a number nor a \<open>bool\<close>, \<open>None\<close> for \<open>NaN\<close>;
  \<^item> \<open>to_time x\<close> is what \<open>pd.to_datetime(..., errors="coerce")\<close> makes of a cell that
    is neither absent, a timestamp nor a date, \<open>None\<close> for \<open>NaT\<close>;
  \<^item> \<open>pearson xs ys\<close> is the Pearson correlation pandas computes for two columns,
    \<open>None\<close> for \<open>NaN\<close>;
  \<^item> \<open>qcut x q dup\<close> is \<open>pd.qcut(x, q, duplicates=dup)\<close> on a column of numbers:
    the error when it raises, else the function that gives each value of the column
    its bucket, an interval or, for a value that falls into none, the absent cell;
  \<^item> \<open>astype_str b\<close> is what \<open>astype(str)\<close> makes of a bucket.
\<close>

record pylib =
  py_float :: "string \<Rightarrow> flt option"
  py_repr :: "cell \<Rightarrow> string"
  to_num :: "cell \<Rightarrow> real option"
  to_time :: "cell \<Rightarrow> int option"
  pearson :: "cell list \<Rightarrow> cell list \<Rightarrow> real option"
  qcut :: "real list \<Rightarrow> nat \<Rightarrow> duplicates \<Rightarrow> py_error + (real \<Rightarrow> cell)"
  astype_str :: "cell \<Rightarrow> cell"

section \<open>Helpers\<close>

subsection \<open>Strings: \<open>str\<close>, \<open>strip\<close>, \<open>lower\<close>\<close>

definition py_str :: "pylib \<Rightarrow> cell \<Rightarrow> string" where
  "py_str L x =
     (case x of
        Str s \<Rightarrow> s
      | Bool b \<Rightarrow> (if b then ''True'' else ''False'')
      | _ \<Rightarrow> py_repr L x)"

definition isspace :: "char \<Rightarrow> bool" where
  "isspace c =
     (let n = (of_char c :: nat)
      in (9 \<le> n \<and> n \<le> 13) \<or> (28 \<le> n \<and> n \<le> 32) \<or> n = 133 \<or> n = 160)"

definition strip :: "string \<Rightarrow> string" where
  "strip s = rev (dropWhile isspace (rev (dropWhile isspace s)))"

definition lower_char :: "char \<Rightarrow> char" where
  "lower_char c =
     (let n = (of_char c :: nat)
      in if (65 \<le> n \<and> n \<le> 90) \<or> (192 \<le> n \<and> n \<le> 222 \<and> n \<noteq> 215)
         then char_of (n + 32) else c)"

definition lower :: "string \<Rightarrow> string" where
  "lower s = map lower_char s"

subsection \<open>\<open>to_bool_int\<close>\<close>

definition truthy :: "string list" where
  "truthy = [''1'', ''true'', ''t'', ''yes'', ''y'']"

definition falsey :: "string list" where
  "falsey = [''0'', ''false'', ''f'', ''no'', ''n'']"

text \<open>
  The inner function \<open>_map\<close> of \<open>to_bool_int\<close>.  The bare \<open>except\<close> around
  \<open>float(s)\<close> is the \<open>None\<close> branch; \<open>float(s) != 0\<close> is true of \<open>nan\<close> and of
  the infinities.
\<close>

definition to_bool_int_map :: "pylib \<Rightarrow> cell \<Rightarrow> int" where
  "to_bool_int_map L x =
     (if isna x then 0
      else let s = lower (strip (py_str L x))
           in if s \<in> set truthy then 1
              else if s \<in> set falsey then 0
              else (case py_float L s of
                      Some v \<Rightarrow> (if v \<noteq> Fin 0 then 1 else 0)
                    | None \<Rightarrow> 0))"

definition to_bool_int :: "pylib \<Rightarrow> cell list \<Rightarrow> int list" where
  "to_bool_int L series = map (to_bool_int_map L) series"

subsection \<open>\<open>safe_div\<close>\<close>

text \<open>
  \<open>float(n)\<close> of a Python integer raises \<open>OverflowError\<close> when \<open>n\<close> rounds
  beyond the largest double; Python's \<open>/\<close> on floats raises on a zero divisor.
\<close>

definition py_float_of_int :: "int \<Rightarrow> py_error + real" where
  "py_float_of_int n =
     (if \<bar>n\<bar> < 2 ^ 1024 - 2 ^ 970 then Inr (real_of_int n) else Inl OverflowError)"

definition py_truediv :: "real \<Rightarrow> real \<Rightarrow> py_error + real" where
  "py_truediv a b = (if b = 0 then Inl ZeroDivisionError else Inr (a / b))"

text \<open>
  \<open>safe_div\<close> is called with two Python integers.  The conditional expression tests the
  divisor first; the \<open>try\<close> turns any error of the conversions and of the division
  into \<open>0.0\<close>.
\<close>

definition safe_div :: "int \<Rightarrow> int \<Rightarrow> real" where
  "safe_div n d =
     (if d \<noteq> 0
      then (case py_float_of_int n of
              Inl _ \<Rightarrow> 0
            | Inr a \<Rightarrow>
                (case py_float_of_int d of
                   Inl _ \<Rightarrow> 0
                 | Inr b \<Rightarrow> (case py_truediv a b of Inr q \<Rightarrow> q | Inl _ \<Rightarrow> 0)))
      else 0)"

subsection \<open>Float arithmetic of numpy\<close>

text \<open>
  numpy never raises on a division: a zero divisor gives an infinity or \<open>NaN\<close>.
  Signed zeros are not modelled; every zero is the positive one.
\<close>

fun np_div :: "flt \<Rightarrow> flt \<Rightarrow> flt" where
  "np_div NaN _ = NaN"
| "np_div _ NaN = NaN"
| "np_div (Fin a) (Fin b) =
     (if b \<noteq> 0 then Fin (a / b) else if a = 0 then NaN else if 0 < a then PInf else NInf)"
| "np_div (Fin a) _ = Fin 0"
| "np_div PInf (Fin b) = (if 0 \<le> b then PInf else NInf)"
| "np_div NInf (Fin b) = (if 0 \<le> b then NInf else PInf)"
| "np_div _ _ = NaN"

fun np_sub :: "flt \<Rightarrow> flt \<Rightarrow> flt" where
  "np_sub NaN _ = NaN"
| "np_sub _ NaN = NaN"
| "np_sub (Fin a) (Fin b) = Fin (a - b)"
| "np_sub (Fin a) PInf = NInf"
| "np_sub (Fin a) NInf = PInf"
| "np_sub PInf PInf = NaN"
| "np_sub PInf _ = PInf"
| "np_sub NInf NInf = NaN"
| "np_sub NInf _ = NInf"

fun fin_val :: "flt \<Rightarrow> real" where
  "fin_val (Fin r) = r"
| "fin_val _ = 0"

text \<open>\<open>Series.mean()\<close>: absent values are skipped; the mean of nothing is \<open>NaN\<close>.\<close>

definition np_mean :: "flt list \<Rightarrow> flt" where
  "np_mean xs =
     (let ys = filter (\<lambda>x. x \<noteq> NaN) xs
      in if ys = [] then NaN
         else if PInf \<in> set ys \<and> NInf \<in> set ys then NaN
         else if PInf \<in> set ys then PInf
         else if NInf \<in> set ys then NInf
         else Fin (sum_list (map fin_val ys) / real (length ys)))"

text \<open>\<open>Series.replace(0, np.nan)\<close> and \<open>Series.fillna(0)\<close> on one value.\<close>

definition replace_zero_nan :: "flt \<Rightarrow> flt" where
  "replace_zero_nan x = (if x = Fin 0 then NaN else x)"

definition fillna_zero :: "flt \<Rightarrow> flt" where
  "fillna_zero x = (if x = NaN then Fin 0 else x)"

text \<open>
  The two rate columns of the daily series:
  \<open>(daily[num] / daily["deliveries"].replace(0, np.nan)).fillna(0)\<close>.
\<close>

definition daily_rate :: "flt \<Rightarrow> flt \<Rightarrow> flt" where
  "daily_rate n d = fillna_zero (np_div n (replace_zero_nan d))"

section \<open>Period comparison\<close>

text \<open>
  \<open>last_vs_prior_7d(series_dates, values)\<close> is called with the \<open>DATE\<close> column of the
  daily series and one of its rate columns.  A date is a day number, \<open>None\<close> is
  \<open>NaT\<close>; \<open>pd.to_datetime\<close> makes each date the midnight of its day, so the index is
  compared in whole days.  A \<open>Series\<close> whose values and index differ in length raises
  \<open>ValueError\<close>.  Comparisons with \<open>NaT\<close> are false and \<open>index.max()\<close> skips
  \<open>NaT\<close>.
\<close>

definition sort_index :: "(int option \<times> flt) list \<Rightarrow> (int option \<times> flt) list" where
  "sort_index s =
     sort_key (\<lambda>(d, v). case d of None \<Rightarrow> (1 :: nat, 0 :: int) | Some t \<Rightarrow> (0, t)) s"

definition index_max :: "(int option \<times> flt) list \<Rightarrow> int option" where
  "index_max s =
     (case [t. (Some t, v) \<leftarrow> s] of
        [] \<Rightarrow> None
      | t # ts \<Rightarrow> Some (fold max ts t))"

definition last7 :: "(int option \<times> flt) list \<Rightarrow> flt list" where
  "last7 s =
     (case index_max s of
        None \<Rightarrow> []
      | Some last_date \<Rightarrow> [v. (Some t, v) \<leftarrow> s, t > last_date - 7])"

definition prior7 :: "(int option \<times> flt) list \<Rightarrow> flt list" where
  "prior7 s =
     (case index_max s of
        None \<Rightarrow> []
      | Some last_date \<Rightarrow>
          [v. (Some t, v) \<leftarrow> s, t > last_date - 14 \<and> t \<le> last_date - 7])"

definition last_vs_prior_7d ::
  "int option list \<Rightarrow> flt list \<Rightarrow> py_error + (flt \<times> flt \<times> flt) option" where
  "last_vs_prior_7d series_dates vals =
     (if length series_dates \<noteq> length vals then Inl ValueError
      else let s = sort_index (zip series_dates vals)
           in if s = [] then Inr None
              else if length (last7 s) = 0 \<or> length (prior7 s) = 0 then Inr None
              else Inr (Some (np_mean (last7 s), np_mean (prior7 s),
                              np_sub (np_mean (last7 s)) (np_mean (prior7 s)))))"

section \<open>Data frames\<close>

text \<open>
  A frame is its number of rows and its columns in order, each with a name, a dtype and
  one cell per row.  \<open>df[c] = col\<close> replaces the column \<open>c\<close> where it stands or
  appends it; \<open>df[c]\<close> raises \<open>KeyError\<close> on a missing column and \<open>df.get(c)\<close>
  returns \<open>None\<close>.
\<close>

datatype dtype = DNumber | DBool | DObject | DDatetime | DCategory

type_synonym column = "dtype \<times> cell list"

record frame =
  nrows :: nat
  cols :: "(string \<times> column) list"

definition df_get :: "frame \<Rightarrow> string \<Rightarrow> column option" where
  "df_get df c = map_of (cols df) c"

definition has_col :: "frame \<Rightarrow> string \<Rightarrow> bool" where
  "has_col df c = (df_get df c \<noteq> None)"

definition getitem :: "frame \<Rightarrow> string \<Rightarrow> py_error + column" where
  "getitem df c = (case df_get df c of None \<Rightarrow> Inl (KeyError c) | Some col \<Rightarrow> Inr col)"

definition setitem :: "frame \<Rightarrow> string \<Rightarrow> column \<Rightarrow> frame" where
  "setitem df c col = df\<lparr>cols := AList.update c col (cols df)\<rparr>"

definition scalar_col :: "frame \<Rightarrow> cell \<Rightarrow> column" where
  "scalar_col df x = (DNumber, replicate (nrows df) x)"

fun bind_err :: "'e + 'a \<Rightarrow> ('a \<Rightarrow> 'e + 'b) \<Rightarrow> 'e + 'b" where
  "bind_err (Inl e) f = Inl e"
| "bind_err (Inr a) f = f a"

subsection \<open>Column arithmetic\<close>

fun cell_num :: "cell \<Rightarrow> real" where
  "cell_num (Num r) = r"
| "cell_num _ = 0"

fun cell_flt :: "cell \<Rightarrow> flt" where
  "cell_flt (Num r) = Fin r"
| "cell_flt _ = NaN"

text \<open>\<open>Series.sum()\<close> of a numeric column skips the absent cells.\<close>

definition col_sum :: "cell list \<Rightarrow> real" where
  "col_sum xs = sum_list (map cell_num xs)"

definition col_mean :: "cell list \<Rightarrow> flt" where
  "col_mean xs = np_mean (map cell_flt xs)"

definition cell_fillna_zero :: "cell \<Rightarrow> cell" where
  "cell_fillna_zero x = (if isna x then Num 0 else x)"

fun cell_div :: "real \<Rightarrow> cell \<Rightarrow> cell" where
  "cell_div k (Num r) = Num (r / k)"
| "cell_div k _ = NA"

text \<open>\<open>Series.nunique()\<close> counts the distinct cells that are not absent.\<close>

definition nunique :: "cell list \<Rightarrow> nat" where
  "nunique xs = length (remdups (filter (\<lambda>x. \<not> isna x) xs))"

text \<open>\<open>int(x)\<close> on a float truncates towards zero.\<close>

definition py_int :: "real \<Rightarrow> int" where
  "py_int r = (if 0 \<le> r then \<lfloor>r\<rfloor> else \<lceil>r\<rceil>)"

section \<open>Preprocessing\<close>

definition to_datetime_cell :: "pylib \<Rightarrow> cell \<Rightarrow> cell" where
  "to_datetime_cell L x =
     (case x of
        NA \<Rightarrow> NA
      | Time t \<Rightarrow> Time t
      | Date d \<Rightarrow> Time (86400 * d)
      | _ \<Rightarrow> (case to_time L x of Some t \<Rightarrow> Time t | None \<Rightarrow> NA))"

text \<open>
  The \<open>.dt\<close> accessors.  Day 0 of the epoch is a Thursday, \<open>dayofweek\<close> 3.
\<close>

fun dt_date :: "cell \<Rightarrow> cell" where
  "dt_date (Time t) = Date (t div 86400)"
| "dt_date _ = NA"

fun dt_hour :: "cell \<Rightarrow> cell" where
  "dt_hour (Time t) = Num (of_int ((t mod 86400) div 3600))"
| "dt_hour _ = NA"

fun dt_dayofweek :: "cell \<Rightarrow> cell" where
  "dt_dayofweek (Time t) = Num (of_int ((t div 86400 + 3) mod 7))"
| "dt_dayofweek _ = NA"

definition dow_map :: "(real \<times> string) list" where
  "dow_map = [(0, ''Mon''), (1, ''Tue''), (2, ''Wed''), (3, ''Thu''), (4, ''Fri''),
              (5, ''Sat''), (6, ''Sun'')]"

fun dow_label :: "cell \<Rightarrow> cell" where
  "dow_label (Num r) = (case map_of dow_map r of Some s \<Rightarrow> Str s | None \<Rightarrow> NA)"
| "dow_label _ = NA"

definition numeric_cols :: "string list" where
  "numeric_cols =
     [''GOV'', ''CHARGEBACK_COST'', ''SIFT_CREATE_ORDER_PA_SCORE'',
      ''FAIL_CHARGES_1HR'', ''FAIL_CHARGES_1D'', ''FAIL_CHARGES_7D'',
      ''DEVICE_DELIVERIES'', ''DEVICE_PCT_CHARGEBACK'',
      ''CCR_PAST_DELIVERIES'', ''CCR_CHARGEBACK_DELIVERIES'', ''CX_PCT_CHARGEBACK'',
      ''CX_UNIQUE_ADDRESSES'', ''UNIQUE_ADDRESS_PAST_1DAY'', ''UNIQUE_ADDRESS_PAST_7DAY'',
      ''CX_DEVICE_ORDER_NUM'', ''CX_ADDRESS_ORDER_NUM'', ''CX_CARD_ORDER_NUM'',
      ''CX_ORDER_NUM'', ''CX_AGE_ON_DELIVERY_BASED_ON_FIRST_ORDER'']"

text \<open>\<open>pd.to_numeric(..., errors="coerce")\<close> on one cell.\<close>

definition to_numeric_cell :: "pylib \<Rightarrow> cell \<Rightarrow> cell" where
  "to_numeric_cell L x =
     (case x of
        NA \<Rightarrow> NA
      | Num r \<Rightarrow> Num r
      | Bool b \<Rightarrow> Num (if b then 1 else 0)
      | _ \<Rightarrow> (case to_num L x of Some r \<Rightarrow> Num r | None \<Rightarrow> NA))"

definition coerce_numeric :: "pylib \<Rightarrow> frame \<Rightarrow> frame" where
  "coerce_numeric L df =
     fold (\<lambda>c d. case df_get d c of
                    Some (_, xs) \<Rightarrow> setitem d c (DNumber, map (to_numeric_cell L) xs)
                  | None \<Rightarrow> d)
       numeric_cols df"

text \<open>
  \<open>to_bool_int(df[c]) if c in df.columns else 0\<close>: the flags are the integers 0 and 1,
  held as numbers.
\<close>

definition bool_col :: "pylib \<Rightarrow> frame \<Rightarrow> string \<Rightarrow> column" where
  "bool_col L df c =
     (case df_get df c of
        Some (_, xs) \<Rightarrow> (DNumber, map (\<lambda>b. Num (of_int b)) (to_bool_int L xs))
      | None \<Rightarrow> scalar_col df (Num 0))"

text \<open>
  Money normalisation: the order value is coerced again, its absent cells become 0, and
  the value in major units is a hundredth of it.
\<close>

definition money :: "pylib \<Rightarrow> frame \<Rightarrow> frame" where
  "money L df =
     (case df_get df ''GOV'' of
        Some (_, xs) \<Rightarrow>
          let gov = map (\<lambda>x. cell_fillna_zero (to_numeric_cell L x)) xs
          in setitem (setitem df ''GOV'' (DNumber, gov))
               ''GOV_DOLLARS'' (DNumber, map (cell_div 100) gov)
      | None \<Rightarrow> setitem df ''GOV_DOLLARS'' (scalar_col df (Num 0)))"

text \<open>
  The preprocessing block of the script, in its four parts.  Without a \<open>CREATED_AT\<close>
  column \<open>df.get\<close> returns \<open>None\<close>, the column assigned is a column of \<open>None\<close>
  objects, and its \<open>.dt\<close> accessor raises \<open>AttributeError\<close>.
\<close>

definition time_columns :: "pylib \<Rightarrow> frame \<Rightarrow> py_error + frame" where
  "time_columns L df0 =
     (case df_get df0 ''CREATED_AT'' of
        None \<Rightarrow> Inl AttributeError
      | Some (_, raw) \<Rightarrow>
          let created = map (to_datetime_cell L) raw;
              df1 = setitem df0 ''CREATED_AT'' (DDatetime, created);
              df2 = setitem df1 ''DATE'' (DObject, map dt_date created);
              df3 = setitem df2 ''HOUR'' (DNumber, map dt_hour created);
              df4 = setitem df3 ''DOW'' (DNumber, map dt_dayofweek created)
          in Inr (setitem df4 ''DOW_LABEL''
                    (DObject, map (\<lambda>x. dow_label (dt_dayofweek x)) created)))"

definition flag_columns :: "pylib \<Rightarrow> frame \<Rightarrow> frame" where
  "flag_columns L df =
     (let df1 = setitem df ''RECEIVED_CHARGEBACK'' (bool_col L df ''RECEIVED_CHARGEBACK'');
          fraud = bool_col L df1 ''IS_FRAUDULENT_CHARGEBACK'';
          df2 = setitem df1 ''IS_FRAUDULENT_CHARGEBACK'' fraud
      in setitem df2 ''FRAUD_FLAG'' fraud)"

definition preprocess :: "pylib \<Rightarrow> frame \<Rightarrow> py_error + frame" where
  "preprocess L df0 =
     (case time_columns L df0 of
        Inl e \<Rightarrow> Inl e
      | Inr df \<Rightarrow> Inr (money L (flag_columns L (coerce_numeric L df))))"

section \<open>KPIs\<close>

text \<open>The module-level KPI variables, as functions of the preprocessed frame.\<close>

definition overall_deliveries :: "frame \<Rightarrow> nat" where
  "overall_deliveries df =
     (case df_get df ''DELIVERY_ID'' of Some (_, xs) \<Rightarrow> nunique xs | None \<Rightarrow> nrows df)"

definition overall_cb :: "frame \<Rightarrow> py_error + int" where
  "overall_cb df =
     bind_err (getitem df ''RECEIVED_CHARGEBACK'') (\<lambda>(_, xs). Inr (py_int (col_sum xs)))"

definition overall_fraud :: "frame \<Rightarrow> py_error + int" where
  "overall_fraud df =
     bind_err (getitem df ''FRAUD_FLAG'') (\<lambda>(_, xs). Inr (py_int (col_sum xs)))"

definition overall_cb_rate :: "frame \<Rightarrow> py_error + real" where
  "overall_cb_rate df =
     bind_err (overall_cb df) (\<lambda>n. Inr (safe_div n (int (overall_deliveries df))))"

definition overall_fraud_rate :: "frame \<Rightarrow> py_error + real" where
  "overall_fraud_rate df =
     bind_err (overall_fraud df) (\<lambda>n. Inr (safe_div n (int (overall_deliveries df))))"

definition overall_cb_cost :: "frame \<Rightarrow> real" where
  "overall_cb_cost df =
     (case df_get df ''CHARGEBACK_COST'' of
        Some (_, xs) \<Rightarrow> col_sum (map cell_fillna_zero xs)
      | None \<Rightarrow> col_sum (map cell_fillna_zero [Num 0]))"

definition avg_gov :: "frame \<Rightarrow> flt" where
  "avg_gov df =
     (case df_get df ''GOV_DOLLARS'' of Some (_, xs) \<Rightarrow> col_mean xs | None \<Rightarrow> Fin 0)"

definition avg_sift :: "frame \<Rightarrow> flt" where
  "avg_sift df =
     (case df_get df ''SIFT_CREATE_ORDER_PA_SCORE'' of
        Some (_, xs) \<Rightarrow> col_mean xs
      | None \<Rightarrow> col_mean [NA])"

section \<open>Grouping\<close>

text \<open>
  \<open>groupby(key, dropna=False)\<close>: one group per distinct key cell that occurs, the
  absent key included.  pandas returns the groups ordered by key; the model keeps
  them in the order of their first occurrence, and no property below depends on the
  order of the groups.
\<close>

definition unique :: "'a list \<Rightarrow> 'a list" where
  "unique xs = rev (remdups (rev xs))"

definition group_rows :: "cell list \<Rightarrow> 'a list \<Rightarrow> cell \<Rightarrow> 'a list" where
  "group_rows ks xs k = map snd (filter (\<lambda>(k', x). k' = k) (zip ks xs))"

definition group_mean_table :: "cell list \<Rightarrow> cell list \<Rightarrow> (cell \<times> flt) list" where
  "group_mean_table ks xs = map (\<lambda>k. (k, col_mean (group_rows ks xs k))) (unique ks)"

section \<open>Daily series\<close>

record daily_row =
  DATE :: cell
  deliveries :: nat
  chargebacks :: real
  fraudulent :: real
  cb_cost :: real
  day_avg_sift :: flt
  day_avg_gov :: flt
  chargeback_rate :: flt
  fraud_rate :: flt

text \<open>\<open>count\<close> counts the cells of the group that are not absent.\<close>

definition col_count :: "cell list \<Rightarrow> nat" where
  "col_count xs = length (filter (\<lambda>x. \<not> isna x) xs)"

text \<open>
  The named aggregation raises \<open>KeyError\<close> when a column it names is missing.  The
  two rates are added to the aggregated frame afterwards.
\<close>

definition daily :: "frame \<Rightarrow> py_error + daily_row list" where
  "daily df =
     bind_err (getitem df ''DATE'') (\<lambda>(_, ks).
     bind_err (getitem df ''DELIVERY_ID'') (\<lambda>(_, ids).
     bind_err (getitem df ''RECEIVED_CHARGEBACK'') (\<lambda>(_, cbs).
     bind_err (getitem df ''FRAUD_FLAG'') (\<lambda>(_, frs).
     bind_err (getitem df ''CHARGEBACK_COST'') (\<lambda>(_, costs).
     bind_err (getitem df ''SIFT_CREATE_ORDER_PA_SCORE'') (\<lambda>(_, sifts).
     bind_err (getitem df ''GOV_DOLLARS'') (\<lambda>(_, govs).
       Inr (map (\<lambda>k.
              let n = col_count (group_rows ks ids k);
                  c = col_sum (group_rows ks cbs k);
                  f = col_sum (group_rows ks frs k)
              in \<lparr> DATE = k,
                   deliveries = n,
                   chargebacks = c,
                   fraudulent = f,
                   cb_cost = col_sum (group_rows ks costs k),
                   day_avg_sift = col_mean (group_rows ks sifts k),
                   day_avg_gov = col_mean (group_rows ks govs k),
                   chargeback_rate = daily_rate (Fin c) (Fin (real n)),
                   fraud_rate = daily_rate (Fin f) (Fin (real n)) \<rparr>)
            (unique ks)))))))))"

section \<open>Segment tables\<close>

text \<open>
  The fraud rate per group of a key column, or the empty table when the key column is
  missing.
\<close>

definition fraud_by :: "frame \<Rightarrow> string \<Rightarrow> py_error + (cell \<times> flt) list" where
  "fraud_by df c =
     (case df_get df c of
        Some (_, ks) \<Rightarrow>
          bind_err (getitem df ''FRAUD_FLAG'') (\<lambda>(_, frs). Inr (group_mean_table ks frs))
      | None \<Rightarrow> Inr [])"

text \<open>\<open>sort_values(key)\<close> on a numeric key column: ascending, absent keys last.\<close>

definition sort_by_key :: "(cell \<times> flt) list \<Rightarrow> (cell \<times> flt) list" where
  "sort_by_key t =
     sort_key (\<lambda>(k, r). case k of Num x \<Rightarrow> (0 :: nat, x) | _ \<Rightarrow> (1, 0)) t"

definition fraud_by_platform :: "frame \<Rightarrow> py_error + (cell \<times> flt) list" where
  "fraud_by_platform df = fraud_by df ''PLATFORM''"

definition fraud_by_addr :: "frame \<Rightarrow> py_error + (cell \<times> flt) list" where
  "fraud_by_addr df =
     bind_err (fraud_by df ''CX_UNIQUE_ADDRESSES'') (\<lambda>t. Inr (sort_by_key t))"

definition fraud_by_failed :: "frame \<Rightarrow> py_error + (cell \<times> flt) list" where
  "fraud_by_failed df =
     bind_err (fraud_by df ''FAIL_CHARGES_1D'') (\<lambda>t. Inr (sort_by_key t))"

subsection \<open>Decile buckets\<close>

text \<open>
  The bucket column is \<open>pd.qcut(df["GOV_DOLLARS"].fillna(0), q=10, duplicates="drop")\<close>,
  its label column the bucket column \<open>astype(str)\<close>; both are the library's.  The
  bucket table is the fraud rate per label.
\<close>

definition add_gov_bins :: "pylib \<Rightarrow> frame \<Rightarrow> py_error + frame" where
  "add_gov_bins L df =
     (case df_get df ''GOV_DOLLARS'' of
        Some (_, xs) \<Rightarrow>
          let x = map (\<lambda>c. cell_num (cell_fillna_zero c)) xs
          in bind_err (qcut L x 10 Drop) (\<lambda>bucket.
               Inr (setitem (setitem df ''GOV_BIN'' (DCategory, map bucket x))
                      ''GOV_BIN_LABEL'' (DObject, map (\<lambda>v. astype_str L (bucket v)) x)))
      | None \<Rightarrow> Inr df)"

definition fraud_by_gov_bin :: "frame \<Rightarrow> py_error + (cell \<times> flt) list" where
  "fraud_by_gov_bin df =
     (if has_col df ''GOV_DOLLARS'' then fraud_by df ''GOV_BIN_LABEL'' else Inr [])"

section \<open>Date range and address insight\<close>

text \<open>
  The date-range note under the KPIs: of a daily series that is not empty, the least and
  the greatest date, absent dates skipped; \<open>strftime\<close> raises \<open>ValueError\<close> on
  \<open>NaT\<close>, which is what the least date of absent dates only is.
\<close>

definition kpi_date_note :: "daily_row list \<Rightarrow> py_error + (int \<times> int) option" where
  "kpi_date_note dly =
     (if dly \<noteq> []
      then (case [t. Date t \<leftarrow> map DATE dly] of
              [] \<Rightarrow> Inl ValueError
            | t # ts \<Rightarrow> Inr (Some (fold min ts t, fold max ts t)))
      else Inr None)"

text \<open>
  \<open>insight_addresses\<close>, which \<open>build_tabs\<close> calls: of a table that is not empty,
  the key of the first row by descending fraud rate, as an integer; \<open>int\<close> raises
  \<open>ValueError\<close> on an absent key.  Rows of equal rate keep their order, as they do
  in the stable sort numpy applies to short columns.
\<close>

definition sort_rate_desc :: "(cell \<times> flt) list \<Rightarrow> (cell \<times> flt) list" where
  "sort_rate_desc t =
     sort_key (\<lambda>(k, r). case r of
                 PInf \<Rightarrow> (0 :: nat, 0 :: real)
               | Fin v \<Rightarrow> (1, - v)
               | NInf \<Rightarrow> (2, 0)
               | NaN \<Rightarrow> (3, 0)) t"

definition insight_addresses :: "(cell \<times> flt) list \<Rightarrow> py_error + int option" where
  "insight_addresses t =
     (case sort_rate_desc t of
        [] \<Rightarrow> Inr None
      | (k, r) # _ \<Rightarrow> (case k of Num a \<Rightarrow> Inr (Some (py_int a)) | _ \<Rightarrow> Inl ValueError))"

section \<open>Correlation ranking\<close>

text \<open>
  The frame behind the predictor chart of \<open>build_tabs\<close>: the columns of a numeric
  dtype, with \<open>FRAUD_FLAG\<close> assigned again, each correlated with \<open>FRAUD_FLAG\<close>; the
  two labels dropped; the first 20 rows kept and then sorted by the correlation,
  ascending, \<open>NaN\<close> last.  pandas does not promise an order among equal correlations.
\<close>

definition select_number :: "frame \<Rightarrow> (string \<times> column) list" where
  "select_number df = filter (\<lambda>(c, d, xs). d = DNumber) (cols df)"

definition corr_with_fraud :: "pylib \<Rightarrow> frame \<Rightarrow> py_error + (string \<times> real option) list" where
  "corr_with_fraud L df =
     bind_err (getitem df ''FRAUD_FLAG'') (\<lambda>(_, frs).
       let num = AList.update ''FRAUD_FLAG'' (DNumber, frs) (select_number df)
       in Inr (map (\<lambda>(c, d, xs). (c, pearson L xs frs)) num))"

definition drop_labels :: "(string \<times> real option) list \<Rightarrow> (string \<times> real option) list" where
  "drop_labels s =
     filter (\<lambda>(c, r). c \<notin> set [''FRAUD_FLAG'', ''IS_FRAUDULENT_CHARGEBACK'']) s"

definition sort_values :: "(string \<times> real option) list \<Rightarrow> (string \<times> real option) list" where
  "sort_values s =
     sort_key (\<lambda>(c, r). case r of None \<Rightarrow> (1 :: nat, 0 :: real) | Some v \<Rightarrow> (0, v)) s"

definition predictors :: "pylib \<Rightarrow> frame \<Rightarrow> py_error + (string \<times> real option) list" where
  "predictors L df =
     bind_err (corr_with_fraud L df) (\<lambda>s.
       let d = drop_labels s
       in Inr (if d \<noteq> [] then sort_values (take 20 d) else []))"

section \<open>Static content\<close>

text \<open>The fields of the glossary and the keys of the recommendation catalogue.\<close>

definition glossary_items :: "string list" where
  "glossary_items =
     [''DELIVERY_ID'', ''CREATED_AT'', ''CONSUMER_ID'', ''GOV'',
      ''CX_AGE_ON_DELIVERY_BASED_ON_FIRST_ORDER'', ''PLATFORM'', ''RECEIVED_CHARGEBACK'',
      ''IS_FRAUDULENT_CHARGEBACK'', ''CHARGEBACK_COST'', ''CX_DEVICE_ORDER_NUM'',
      ''CX_ADDRESS_ORDER_NUM'', ''CX_CARD_ORDER_NUM'', ''CX_ORDER_NUM'',
      ''CX_UNIQUE_ADDRESSES'', ''UNIQUE_ADDRESS_PAST_1DAY'', ''UNIQUE_ADDRESS_PAST_7DAY'',
      ''SIFT_CREATE_ORDER_PA_SCORE'', ''FAIL_CHARGES_1HR'', ''FAIL_CHARGES_1D'',
      ''FAIL_CHARGES_7D'', ''DEVICE_DELIVERIES'', ''DEVICE_PCT_CHARGEBACK'',
      ''CCR_PAST_DELIVERIES'', ''CCR_CHARGEBACK_DELIVERIES'', ''CX_PCT_CHARGEBACK'']"

definition REC_DEFS :: "string list" where
  "REC_DEFS = [''temporal'', ''failed_payments'', ''address_velocity'', ''device'',
               ''sift'', ''gov'', ''platform'']"

text \<open>
  \<open>build_rec_cards\<close>: one card per key, the selected one highlighted and, by a stable
  sort, first.  A card is its key and its highlight.
\<close>

definition build_rec_cards :: "string option \<Rightarrow> (string \<times> bool) list" where
  "build_rec_cards selected_key =
     (let cards = map (\<lambda>key. (key, Some key = selected_key)) REC_DEFS
      in case selected_key of
           None \<Rightarrow> cards
         | Some k \<Rightarrow>
             if k \<noteq> [] \<and> k \<in> set REC_DEFS
             then sort_key (\<lambda>(key, h). if key = k then 0 else 1 :: nat) cards
             else cards)"

section \<open>Startup\<close>

text \<open>
  What the script computes when it is loaded, in its order: the first error ends it.
  The temporal heat map, the other insight texts and the charts of the layout are not
  part of the model.
\<close>

record aggregates =
  kpi_cb_rate :: real
  kpi_fraud_rate :: real
  kpi_cb_cost :: real
  kpi_avg_gov :: flt
  kpi_avg_sift :: flt
  tbl_daily :: "daily_row list"
  tbl_platform :: "(cell \<times> flt) list"
  tbl_addr :: "(cell \<times> flt) list"
  tbl_failed :: "(cell \<times> flt) list"
  tbl_gov_bin :: "(cell \<times> flt) list"
  tbl_predictors :: "(string \<times> real option) list"
  date_range :: "(int \<times> int) option"
  top_addresses :: "int option"
  glossary :: "string list"
  rec_cards :: "(string \<times> bool) list"

definition startup :: "pylib \<Rightarrow> frame \<Rightarrow> py_error + aggregates" where
  "startup L df0 =
     bind_err (preprocess L df0) (\<lambda>df.
     bind_err (overall_cb_rate df) (\<lambda>cb_rate.
     bind_err (overall_fraud_rate df) (\<lambda>fr_rate.
     bind_err (daily df) (\<lambda>dly.
     bind_err (kpi_date_note dly) (\<lambda>note.
     bind_err (fraud_by_platform df) (\<lambda>plat.
     bind_err (fraud_by_addr df) (\<lambda>addr.
     bind_err (fraud_by_failed df) (\<lambda>failed.
     bind_err (add_gov_bins L df) (\<lambda>df'.
     bind_err (fraud_by_gov_bin df') (\<lambda>govb.
     bind_err (insight_addresses addr) (\<lambda>top.
     bind_err (predictors L df') (\<lambda>preds.
       Inr \<lparr> kpi_cb_rate = cb_rate,
             kpi_fraud_rate = fr_rate,
             kpi_cb_cost = overall_cb_cost df,
             kpi_avg_gov = avg_gov df,
             kpi_avg_sift = avg_sift df,
             tbl_daily = dly,
             tbl_platform = plat,
             tbl_addr = addr,
             tbl_failed = failed,
             tbl_gov_bin = govb,
             tbl_predictors = preds,
             date_range = note,
             top_addresses = top,
             glossary = glossary_items,
             rec_cards = build_rec_cards None \<rparr>))))))))))))"

section \<open>Well-formed tables and the statistics the specification words\<close>

text \<open>A table is well formed when each of its columns has one cell per row.\<close>

definition wf_frame :: "frame \<Rightarrow> bool" where
  "wf_frame df = (\<forall>(c, d, xs)\<in>set (cols df). length xs = nrows df)"

definition col_cells :: "frame \<Rightarrow> string \<Rightarrow> cell set" where
  "col_cells df c = (case df_get df c of Some (_, xs) \<Rightarrow> set xs | None \<Rightarrow> {})"

text \<open>
  The average order value in the specification's words, to compare \<open>avg_gov\<close> with:
  the mean, in major units, of the order values that are present after coercion, the
  absent and unparseable ones left out of the mean.
\<close>

definition spec_avg_order_value :: "pylib \<Rightarrow> cell list \<Rightarrow> flt" where
  "spec_avg_order_value L xs = col_mean (map (\<lambda>x. cell_div 100 (to_numeric_cell L x)) xs)"

text \<open>
  Boolean coercion in the specification's words, to compare \<open>to_bool_int\<close> with: the
  listed tokens are matched against the value as it is; any other value is parsed as a
  number, non-zero giving 1 and zero giving 0; an unparseable or absent value gives 0.
\<close>

definition spec_to_bool_int :: "pylib \<Rightarrow> cell \<Rightarrow> int" where
  "spec_to_bool_int L x =
     (if isna x then 0
      else let s = py_str L x
           in if s \<in> set truthy then 1
              else if s \<in> set falsey then 0
              else (case py_float L s of
                      Some v \<Rightarrow> (if v \<noteq> Fin 0 then 1 else 0)
                    | None \<Rightarrow> 0))"

text \<open>
  The order in which \<open>sort_values\<close> leaves two correlations: ascending, \<open>NaN\<close> last.
\<close>

definition corr_le :: "real option \<Rightarrow> real option \<Rightarrow> bool" where
  "corr_le r s =
     (case s of
        None \<Rightarrow> True
      | Some b \<Rightarrow> (case r of None \<Rightarrow> False | Some a \<Rightarrow> a \<le> b))"

section \<open>A sample library and sample tables\<close>

text \<open>
  An instance of the library record for evaluating the model on concrete tables.
  \<open>sample_float\<close> is \<open>float\<close> on the non-empty strings of decimal digits; the
  concrete inputs below give it such a string or a string that \<open>float\<close> rejects.
  The sample tables hold their flags as strings and \<open>bool\<close>s, their timestamps as
  timestamps and their numbers as numbers, so that \<open>py_repr\<close>, \<open>to_num\<close> and
  \<open>to_time\<close> only ever see a string that is no number and no date.
\<close>

definition isdigit :: "char \<Rightarrow> bool" where
  "isdigit c = (let n = (of_char c :: nat) in 48 \<le> n \<and> n \<le> 57)"

definition digits_val :: "string \<Rightarrow> nat" where
  "digits_val s = foldl (\<lambda>a c. 10 * a + (of_char c - 48)) 0 s"

definition sample_float :: "string \<Rightarrow> flt option" where
  "sample_float s =
     (if s \<noteq> [] \<and> list_all isdigit s then Some (Fin (real (digits_val s))) else None)"

text \<open>
  The Pearson coefficient of the rows in which both cells are numbers, \<open>NaN\<close> when
  one side has no variance.  The cases of no and of full correlation are tested first,
  so that they evaluate by rational arithmetic; the general case is kept out of
  evaluation.
\<close>

definition pearson_quotient :: "real \<Rightarrow> real \<Rightarrow> real \<Rightarrow> real" where
  "pearson_quotient cov vx vy = cov / sqrt (vx * vy)"

declare pearson_quotient_def [code del]

fun is_num :: "cell \<Rightarrow> bool" where
  "is_num (Num r) = True"
| "is_num _ = False"

definition sample_pearson :: "cell list \<Rightarrow> cell list \<Rightarrow> real option" where
  "sample_pearson xs ys =
     (let ps = filter (\<lambda>(x, y). is_num x \<and> is_num y) (zip xs ys);
          n = real (length ps);
          mx = sum_list (map (\<lambda>(x, y). cell_num x) ps) / n;
          my = sum_list (map (\<lambda>(x, y). cell_num y) ps) / n;
          cov = sum_list (map (\<lambda>(x, y). (cell_num x - mx) * (cell_num y - my)) ps);
          vx = sum_list (map (\<lambda>(x, y). (cell_num x - mx) * (cell_num x - mx)) ps);
          vy = sum_list (map (\<lambda>(x, y). (cell_num y - my) * (cell_num y - my)) ps)
      in if ps = [] \<or> vx = 0 \<or> vy = 0 then None
         else if cov = 0 then Some 0
         else if cov * cov = vx * vy then Some (if 0 < cov then 1 else - 1)
         else Some (pearson_quotient cov vx vy))"

text \<open>
  \<open>pd.qcut\<close> in exact arithmetic.  The bin edges are the quantiles
  \<open>0, 1/q, ..., 1\<close> of the column by linear interpolation.  When edges repeat,
  \<open>duplicates="raise"\<close> raises \<open>ValueError\<close> and \<open>duplicates="drop"\<close> keeps one
  of each.  A value belongs to the interval \<open>(lo, hi]\<close> of two neighbouring edges,
  the lowest edge being included in the first interval; a value that falls into no
  interval is absent.  The library computes the edges in floating point, so that on
  columns whose quantiles are no floating-point numbers its edges may differ from
  these; the sample tables have none.
\<close>

definition quantile :: "real list \<Rightarrow> real \<Rightarrow> real" where
  "quantile srt p =
     (let pos = p * real (length srt - 1);
          j = nat \<lfloor>pos\<rfloor>;
          g = pos - real j
      in if j + 1 < length srt then srt ! j + (srt ! (j + 1) - srt ! j) * g else srt ! j)"

definition bin_edges :: "real list \<Rightarrow> nat \<Rightarrow> real list" where
  "bin_edges x q = map (\<lambda>k. quantile (sort x) (real k / real q)) [0..<q + 1]"

definition searchsorted_left :: "real list \<Rightarrow> real \<Rightarrow> nat" where
  "searchsorted_left bins v = length (filter (\<lambda>b. b < v) bins)"

definition bin_of :: "real list \<Rightarrow> real \<Rightarrow> cell" where
  "bin_of bins v =
     (let i = (if v = hd bins then 1 else searchsorted_left bins v)
      in if i = length bins \<or> i = 0 then NA else Interval (bins ! (i - 1)) (bins ! i))"

definition sample_qcut :: "real list \<Rightarrow> nat \<Rightarrow> duplicates \<Rightarrow> py_error + (real \<Rightarrow> cell)" where
  "sample_qcut x q dup =
     (if x = [] then Inr (\<lambda>_. NA)
      else let bins = bin_edges x q;
               unique_bins = unique bins
           in if length unique_bins < length bins \<and> length bins \<noteq> 2
              then (if dup = Raise then Inl ValueError else Inr (bin_of unique_bins))
              else Inr (bin_of bins))"

text \<open>
  \<open>astype(str)\<close> as pandas 2 has it: the absent bucket becomes the string "nan"; an
  interval becomes its rendering, for which the interval itself stands.
\<close>

fun sample_astype_str :: "cell \<Rightarrow> cell" where
  "sample_astype_str NA = Str ''nan''"
| "sample_astype_str x = x"

definition sample_lib :: pylib where
  "sample_lib =
     \<lparr> py_float = sample_float,
       py_repr = (\<lambda>_. ''<object>''),
       to_num = (\<lambda>_. None),
       to_time = (\<lambda>_. None),
       pearson = sample_pearson,
       qcut = sample_qcut,
       astype_str = sample_astype_str \<rparr>"

text \<open>
  Three deliveries on two days a week apart, all at midnight.  The second has no
  identifier and no order value, the third an order value that is no number.
\<close>

definition sample_frame :: frame where
  "sample_frame =
     \<lparr> nrows = 3,
       cols =
         [(''DELIVERY_ID'', DObject, [Str ''a'', NA, Str ''c'']),
          (''CREATED_AT'', DDatetime, [Time 0, Time 604800, Time 0]),
          (''GOV'', DObject, [Num 1000, NA, Str ''x'']),
          (''RECEIVED_CHARGEBACK'', DObject, [Str ''yes'', Str ''no'', Str ''no'']),
          (''IS_FRAUDULENT_CHARGEBACK'', DBool, [Bool True, Bool False, Bool False]),
          (''CHARGEBACK_COST'', DNumber, [Num 100, Num 200, Num 0]),
          (''SIFT_CREATE_ORDER_PA_SCORE'', DNumber, [Num 50, Num 50, NA]),
          (''PLATFORM'', DObject, [Str ''ios'', Str ''web'', Str ''ios''])] \<rparr>"

text \<open>The same table without the optional chargeback cost column.\<close>

definition sample_frame_no_cost :: frame where
  "sample_frame_no_cost =
     \<lparr> nrows = 3,
       cols =
         [(''DELIVERY_ID'', DObject, [Str ''a'', NA, Str ''c'']),
          (''CREATED_AT'', DDatetime, [Time 0, Time 604800, Time 0]),
          (''GOV'', DObject, [Num 1000, NA, Str ''x'']),
          (''RECEIVED_CHARGEBACK'', DObject, [Str ''yes'', Str ''no'', Str ''no'']),
          (''IS_FRAUDULENT_CHARGEBACK'', DBool, [Bool True, Bool False, Bool False]),
          (''SIFT_CREATE_ORDER_PA_SCORE'', DNumber, [Num 50, Num 50, NA]),
          (''PLATFORM'', DObject, [Str ''ios'', Str ''web'', Str ''ios''])] \<rparr>"

text \<open>A table with every column of the data model and no record.\<close>

definition empty_frame :: frame where
  "empty_frame =
     \<lparr> nrows = 0,
       cols =
         [(''DELIVERY_ID'', DObject, []),
          (''CREATED_AT'', DObject, []),
          (''GOV'', DObject, []),
          (''RECEIVED_CHARGEBACK'', DObject, []),
          (''IS_FRAUDULENT_CHARGEBACK'', DObject, []),
          (''CHARGEBACK_COST'', DObject, []),
          (''SIFT_CREATE_ORDER_PA_SCORE'', DObject, []),
          (''PLATFORM'', DObject, []),
          (''CX_UNIQUE_ADDRESSES'', DObject, []),
          (''FAIL_CHARGES_1D'', DObject, [])] \<rparr>"

section \<open>Properties of the helpers\<close>

lemma isspace_lower_char: "isspace c \<Longrightarrow> lower_char c = c"
  by (auto simp: isspace_def lower_char_def Let_def)

lemma notspace_of_lower: "\<not> isspace (lower_char c) \<Longrightarrow> \<not> isspace c"
  using isspace_lower_char by fastforce

lemma strip_padded:
  assumes "t \<noteq> []" "\<not> isspace (hd t)" "\<not> isspace (last t)"
    and "\<forall>c\<in>set pre. isspace c" "\<forall>c\<in>set post. isspace c"
  shows "strip (pre @ t @ post) = t"
proof -
  have a: "dropWhile isspace (pre @ t @ post) = t @ post"
    using assms by (cases t) (simp_all add: dropWhile_append3)
  have "dropWhile isspace (rev post @ rev t) = rev t"
    using assms by (cases "rev t") (auto simp: dropWhile_append3 last_rev hd_rev)
  then show ?thesis by (simp add: strip_def a)
qed

lemma token_nospace:
  assumes "lower t \<in> set truthy \<union> set falsey"
  shows "t \<noteq> [] \<and> \<not> isspace (hd t) \<and> \<not> isspace (last t)"
proof -
  have "t \<noteq> []"
    using assms by (auto simp: lower_def truthy_def falsey_def)
  moreover have "\<forall>c\<in>set (lower t). \<not> isspace c"
    using assms by (auto simp: truthy_def falsey_def isspace_def)
  then have "\<forall>c\<in>set t. \<not> isspace c"
    using notspace_of_lower by (auto simp: lower_def)
  ultimately show ?thesis by simp
qed

lemma strip_lower_token:
  assumes "t \<in> set truthy \<union> set falsey"
  shows "lower (strip t) = t"
  using assms
  by (auto simp: truthy_def falsey_def strip_def isspace_def lower_def lower_char_def)

lemma truthy_falsey_disjoint: "set truthy \<inter> set falsey = {}"
  by (auto simp: truthy_def falsey_def)

text \<open>
  C7 as stated fails: the upper-case string "TRUE" is none of the listed tokens and
  \<open>float\<close> rejects it, so that the rule as worded gives 0; \<open>to_bool_int\<close>
  lower-cases it first and gives 1.
\<close>

theorem to_bool_int_map_upper_case_token:
  "''TRUE'' \<notin> set truthy \<union> set falsey
   \<and> py_float sample_lib ''TRUE'' = None
   \<and> spec_to_bool_int sample_lib (Str ''TRUE'') = 0
   \<and> to_bool_int_map sample_lib (Str ''TRUE'') = 1"
  by (simp add: truthy_def falsey_def spec_to_bool_int_def to_bool_int_map_def isna_def
      py_str_def strip_def isspace_def lower_def lower_char_def char_of_eq_iff
      sample_lib_def sample_float_def isdigit_def)

text \<open>
  C7, as amended.  Boolean coercion is total and never raises: the result is always 0
  or 1.  An absent value maps to 0.  Every other value is converted to its string,
  stripped of surrounding whitespace and lower-cased; if the outcome is one of "1",
  "true", "t", "yes", "y" the value maps to 1, if it is one of "0", "false", "f", "no",
  "n" the value maps to 0, and otherwise it is given to \<open>float\<close>: a parse that fails
  maps to 0, a parsed zero maps to 0 and any other parsed value, \<open>nan\<close> and the
  infinities included, maps to 1.  In particular each listed token maps as listed, and
  the booleans \<open>True\<close> and \<open>False\<close> map to 1 and 0.
\<close>

theorem to_bool_int_map_cases:
  "to_bool_int_map L x \<in> {0, 1}
   \<and> (isna x \<longrightarrow> to_bool_int_map L x = 0)
   \<and> (\<not> isna x \<and> lower (strip (py_str L x)) \<in> set truthy \<longrightarrow> to_bool_int_map L x = 1)
   \<and> (\<not> isna x \<and> lower (strip (py_str L x)) \<in> set falsey \<longrightarrow> to_bool_int_map L x = 0)
   \<and> (\<not> isna x \<and> lower (strip (py_str L x)) \<notin> set truthy \<union> set falsey \<longrightarrow>
        to_bool_int_map L x =
          (case py_float L (lower (strip (py_str L x))) of
             None \<Rightarrow> 0
           | Some v \<Rightarrow> (if v = Fin 0 then 0 else 1)))
   \<and> (\<forall>t\<in>set truthy. to_bool_int_map L (Str t) = 1)
   \<and> (\<forall>t\<in>set falsey. to_bool_int_map L (Str t) = 0)
   \<and> to_bool_int_map L (Bool True) = 1
   \<and> to_bool_int_map L (Bool False) = 0"
proof -
  have range: "to_bool_int_map L x \<in> {0, 1}"
    by (simp add: to_bool_int_map_def Let_def split: option.splits)
  have na: "isna x \<longrightarrow> to_bool_int_map L x = 0"
    by (simp add: to_bool_int_map_def)
  have tr: "\<not> isna x \<and> lower (strip (py_str L x)) \<in> set truthy \<longrightarrow> to_bool_int_map L x = 1"
    by (simp add: to_bool_int_map_def Let_def)
  have fa: "\<not> isna x \<and> lower (strip (py_str L x)) \<in> set falsey \<longrightarrow> to_bool_int_map L x = 0"
    using truthy_falsey_disjoint by (auto simp: to_bool_int_map_def Let_def)
  have other: "\<not> isna x \<and> lower (strip (py_str L x)) \<notin> set truthy \<union> set falsey \<longrightarrow>
        to_bool_int_map L x =
          (case py_float L (lower (strip (py_str L x))) of
             None \<Rightarrow> 0
           | Some v \<Rightarrow> (if v = Fin 0 then 0 else 1))"
    by (simp add: to_bool_int_map_def Let_def split: option.splits)
  have t: "\<forall>t\<in>set truthy. to_bool_int_map L (Str t) = 1"
    using strip_lower_token by (simp add: to_bool_int_map_def isna_def py_str_def)
  have f: "\<forall>t\<in>set falsey. to_bool_int_map L (Str t) = 0"
    using strip_lower_token truthy_falsey_disjoint
    by (auto simp: to_bool_int_map_def isna_def py_str_def)
  have bt: "to_bool_int_map L (Bool True) = 1"
    by (simp add: to_bool_int_map_def isna_def py_str_def strip_def isspace_def lower_def
        lower_char_def char_of_eq_iff truthy_def)
  have bf: "to_bool_int_map L (Bool False) = 0"
    by (simp add: to_bool_int_map_def isna_def py_str_def strip_def isspace_def lower_def
        lower_char_def char_of_eq_iff truthy_def falsey_def)
  from range na tr fa other t f bt bf show ?thesis by blast
qed

theorem to_bool_int_map_cases_witness:
  "isna NA \<and> to_bool_int_map sample_lib NA = 0
   \<and> \<not> isna (Str ''TRUE'')
   \<and> lower (strip (py_str sample_lib (Str ''TRUE''))) \<in> set truthy
   \<and> to_bool_int_map sample_lib (Str ''TRUE'') = 1
   \<and> \<not> isna (Str '' No '')
   \<and> lower (strip (py_str sample_lib (Str '' No ''))) \<in> set falsey
   \<and> to_bool_int_map sample_lib (Str '' No '') = 0
   \<and> \<not> isna (Str ''07'')
   \<and> lower (strip (py_str sample_lib (Str ''07''))) \<notin> set truthy \<union> set falsey
   \<and> py_float sample_lib (lower (strip (py_str sample_lib (Str ''07'')))) = Some (Fin 7)
   \<and> to_bool_int_map sample_lib (Str ''07'') = 1
   \<and> py_float sample_lib (lower (strip (py_str sample_lib (Str ''00'')))) = Some (Fin 0)
   \<and> to_bool_int_map sample_lib (Str ''00'') = 0
   \<and> py_float sample_lib (lower (strip (py_str sample_lib (Str ''maybe'')))) = None
   \<and> to_bool_int_map sample_lib (Str ''maybe'') = 0
   \<and> ''yes'' \<in> set truthy \<and> to_bool_int_map sample_lib (Str ''yes'') = 1
   \<and> ''no'' \<in> set falsey \<and> to_bool_int_map sample_lib (Str ''no'') = 0
   \<and> to_bool_int_map sample_lib (Bool True) = 1
   \<and> to_bool_int_map sample_lib (Bool False) = 0"
  using to_bool_int_map_cases [of sample_lib NA]
    to_bool_int_map_cases [of sample_lib "Str ''TRUE''"]
    to_bool_int_map_cases [of sample_lib "Str '' No ''"]
    to_bool_int_map_cases [of sample_lib "Str ''07''"]
    to_bool_int_map_cases [of sample_lib "Str ''00''"]
    to_bool_int_map_cases [of sample_lib "Str ''maybe''"]
  by (simp add: truthy_def falsey_def isna_def py_str_def strip_def isspace_def lower_def
      lower_char_def char_of_eq_iff sample_lib_def sample_float_def isdigit_def digits_val_def)

text \<open>
  C10.  Boolean coercion strips surrounding whitespace and lower-cases its input before
  matching: a recognised token in any letter case, padded with any whitespace on either
  side, maps like the token itself (for example "TRUE" and " Yes " to 1, "FALSE" and
  " No " to 0).
\<close>

theorem to_bool_int_map_case_padding:
  assumes "\<forall>c\<in>set pre. isspace c" and "\<forall>c\<in>set post. isspace c"
  shows "(lower t \<in> set truthy \<longrightarrow> to_bool_int_map L (Str (pre @ t @ post)) = 1)
       \<and> (lower t \<in> set falsey \<longrightarrow> to_bool_int_map L (Str (pre @ t @ post)) = 0)"
proof -
  have s: "strip (pre @ t @ post) = t" if "lower t \<in> set truthy \<union> set falsey"
    using strip_padded [OF _ _ _ assms] token_nospace [OF that] by blast
  have nt: "lower t \<notin> set truthy" if "lower t \<in> set falsey"
    using that truthy_falsey_disjoint by blast
  show ?thesis
    using s nt by (auto simp: to_bool_int_map_def isna_def py_str_def Let_def)
qed

theorem to_bool_int_map_case_padding_witness:
  "isspace CHR '' '' \<and> lower ''Yes'' \<in> set truthy \<and> lower ''No'' \<in> set falsey
   \<and> lower ''TRUE'' \<in> set truthy \<and> lower ''FALSE'' \<in> set falsey
   \<and> to_bool_int_map sample_lib (Str '' Yes '') = 1
   \<and> to_bool_int_map sample_lib (Str '' No '') = 0
   \<and> to_bool_int_map sample_lib (Str ''TRUE'') = 1
   \<and> to_bool_int_map sample_lib (Str ''FALSE'') = 0"
proof -
  have sp1: "isspace CHR '' ''" by (simp add: isspace_def)
  then have sp: "\<forall>c\<in>set '' ''. isspace c" by simp
  have em: "\<forall>c\<in>set []. isspace c" by simp
  have low: "lower ''Yes'' \<in> set truthy \<and> lower ''No'' \<in> set falsey
      \<and> lower ''TRUE'' \<in> set truthy \<and> lower ''FALSE'' \<in> set falsey"
    by (simp add: lower_def lower_char_def char_of_eq_iff truthy_def falsey_def)
  show ?thesis
    using sp1 low
      to_bool_int_map_case_padding [OF sp sp, of "''Yes''" sample_lib]
      to_bool_int_map_case_padding [OF sp sp, of "''No''" sample_lib]
      to_bool_int_map_case_padding [OF em em, of "''TRUE''" sample_lib]
      to_bool_int_map_case_padding [OF em em, of "''FALSE''" sample_lib]
    by simp
qed

section \<open>Properties of the period comparison\<close>

lemma np_mean_mset: "mset xs = mset ys \<Longrightarrow> np_mean xs = np_mean ys"
proof -
  assume a: "mset xs = mset ys"
  let ?f = "filter (\<lambda>x. x \<noteq> NaN)"
  have m: "mset (?f xs) = mset (?f ys)" using a by simp
  have s: "set (?f xs) = set (?f ys)" using m by (rule mset_eq_setD)
  have l: "length (?f xs) = length (?f ys)" using m by (rule mset_eq_length)
  have e: "(?f xs = []) = (?f ys = [])" using l by auto
  have "sum_mset (mset (map fin_val (?f xs))) = sum_mset (mset (map fin_val (?f ys)))"
    using m by (metis mset_map)
  then have u: "sum_list (map fin_val (?f xs)) = sum_list (map fin_val (?f ys))"
    by (simp only: sum_mset_sum_list)
  show ?thesis
    unfolding np_mean_def Let_def using s l e u by presburger
qed

lemma np_mean_Fin: "rs \<noteq> [] \<Longrightarrow> np_mean (map Fin rs) = Fin (sum_list rs / real (length rs))"
proof -
  assume a: "rs \<noteq> []"
  have f: "filter (\<lambda>x. x \<noteq> NaN) (map Fin rs) = map Fin rs"
    by (induction rs) auto
  have v: "map fin_val (map Fin rs) = rs" by (induction rs) auto
  have "PInf \<notin> set (map Fin rs)" "NInf \<notin> set (map Fin rs)" by auto
  then show ?thesis using a v f unfolding np_mean_def Let_def by (simp del: map_map)
qed

lemma window_as_filter:
  "[v. (Some t, v) \<leftarrow> s, P t] = map snd (filter (\<lambda>(d, v). case d of None \<Rightarrow> False | Some t \<Rightarrow> P t) s)"
  by (induction s) (auto split: option.splits)

lemma window_mset:
  "mset s = mset s' \<Longrightarrow> mset [v. (Some t, v) \<leftarrow> s, P t] = mset [v. (Some t, v) \<leftarrow> s', P t]"
  unfolding window_as_filter by (metis mset_filter mset_map)

lemma window_Fin:
  "length ds = length rs \<Longrightarrow>
   [v. (Some t, v) \<leftarrow> zip ds (map Fin rs), P t] = map Fin [r. (Some t, r) \<leftarrow> zip ds rs, P t]"
  by (induction ds rs rule: list_induct2) (auto split: option.splits)

lemma dates_of_zip:
  "length ds = length vs \<Longrightarrow> [t. (Some t, v) \<leftarrow> zip ds vs] = [t. Some t \<leftarrow> ds]"
  by (induction ds vs rule: list_induct2) (auto split: option.splits)

lemma index_max_eq:
  "index_max s =
     (if [t. (Some t, v) \<leftarrow> s] = [] then None else Some (Max (set [t. (Some t, v) \<leftarrow> s])))"
proof (cases "[t. (Some t, v) \<leftarrow> s]")
  case Nil
  show ?thesis unfolding index_max_def Nil by simp
next
  case (Cons t ts)
  have "fold max ts t = Max (set (t # ts))" by (rule Max.set_eq_fold [symmetric])
  then show ?thesis unfolding index_max_def Cons by simp
qed

lemma mset_sort_index: "mset (sort_index s) = mset s"
  by (simp add: sort_index_def)

lemma dates_mset:
  "mset s = mset s' \<Longrightarrow> set [t. (Some t, v) \<leftarrow> s] = set [t. (Some t, v) \<leftarrow> s']"
proof -
  assume "mset s = mset s'"
  then have "set s = set s'" by (rule mset_eq_setD)
  then show ?thesis by auto
qed

lemma index_max_mset: "mset s = mset s' \<Longrightarrow> index_max s = index_max s'"
  unfolding index_max_eq using dates_mset[of s s'] by (metis set_empty)


lemma last7_mset: "mset s = mset s' \<Longrightarrow> mset (last7 s) = mset (last7 s')"
  unfolding last7_def using index_max_mset [of s s'] window_mset [of s s']
  by (auto split: option.splits)

lemma prior7_mset: "mset s = mset s' \<Longrightarrow> mset (prior7 s) = mset (prior7 s')"
  unfolding prior7_def using index_max_mset [of s s'] window_mset [of s s']
  by (auto split: option.splits)

lemma index_max_zip:
  assumes "length ds = length vs"
  shows "index_max (zip ds vs) =
     (if [t. Some t \<leftarrow> ds] = [] then None else Some (Max (set [t. Some t \<leftarrow> ds])))"
  unfolding index_max_eq dates_of_zip [OF assms] by simp

text \<open>
  C2, as amended.  The period comparison returns no result exactly when no date is
  observed or one of the two windows holds no observation: the last window is the
  dates within 7 days back from the maximum observed date \<open>m\<close> (after \<open>m - 7\<close>),
  the preceding window is the dates after \<open>m - 14\<close> and up to \<open>m - 7\<close>.  A window
  that holds an observation is enough, however few of its 7 days are observed.  When
  a result is returned it is the mean of each window and their signed difference.
\<close>

theorem last_vs_prior_7d_windows:
  assumes len: "length ds = length rs"
  shows "last_vs_prior_7d ds (map Fin rs) =
     Inr (if [t. Some t \<leftarrow> ds] = [] then None
          else let m = Max (set [t. Some t \<leftarrow> ds]);
                   A = [r. (Some t, r) \<leftarrow> zip ds rs, t > m - 7];
                   B = [r. (Some t, r) \<leftarrow> zip ds rs, t > m - 14 \<and> t \<le> m - 7]
               in if A = [] \<or> B = [] then None
                  else Some (Fin (sum_list A / real (length A)),
                             Fin (sum_list B / real (length B)),
                             Fin (sum_list A / real (length A) - sum_list B / real (length B))))"
proof -
  let ?z = "zip ds (map Fin rs)"
  let ?s = "sort_index ?z"
  have len': "length ds = length (map Fin rs)" using len by simp
  have ms: "mset ?s = mset ?z" by (rule mset_sort_index)
  have im: "index_max ?z =
     (if [t. Some t \<leftarrow> ds] = [] then None else Some (Max (set [t. Some t \<leftarrow> ds])))"
    by (rule index_max_zip [OF len'])
  show ?thesis
  proof (cases "[t. Some t \<leftarrow> ds] = []")
    case True
    then have "index_max ?s = None" using index_max_mset [OF ms] im by simp
    then have "last7 ?s = []" by (simp add: last7_def)
    then show ?thesis using True len by (simp add: last_vs_prior_7d_def Let_def)
  next
    case False
    let ?m = "Max (set [t. Some t \<leftarrow> ds])"
    let ?A = "[r. (Some t, r) \<leftarrow> zip ds rs, t > ?m - 7]"
    let ?B = "[r. (Some t, r) \<leftarrow> zip ds rs, t > ?m - 14 \<and> t \<le> ?m - 7]"
    have i0: "index_max ?z = Some ?m" using im False by simp
    have a0: "last7 ?z = map Fin ?A"
      unfolding last7_def i0 by (simp only: option.case window_Fin [OF len])
    have b0: "prior7 ?z = map Fin ?B"
      unfolding prior7_def i0 by (simp only: option.case window_Fin [OF len])
    have ma: "mset (last7 ?s) = mset (map Fin ?A)" using last7_mset [OF ms] a0 by simp
    have mb: "mset (prior7 ?s) = mset (map Fin ?B)" using prior7_mset [OF ms] b0 by simp
    have la: "length (last7 ?s) = length ?A" using mset_eq_length [OF ma] by simp
    have lb: "length (prior7 ?s) = length ?B" using mset_eq_length [OF mb] by simp
    have na: "np_mean (last7 ?s) = np_mean (map Fin ?A)" by (rule np_mean_mset [OF ma])
    have nb: "np_mean (prior7 ?s) = np_mean (map Fin ?B)" by (rule np_mean_mset [OF mb])
    have "ds \<noteq> []" using False by auto
    then have ne: "?s \<noteq> []" using len ms by (cases ds; cases rs) auto
    show ?thesis
    proof (cases "?A = [] \<or> ?B = []")
      case True
      then have "length (last7 ?s) = 0 \<or> length (prior7 ?s) = 0" using la lb by auto
      then show ?thesis
        using True False len ne unfolding last_vs_prior_7d_def Let_def by simp
    next
      case F2: False
      then have "\<not> (length (last7 ?s) = 0 \<or> length (prior7 ?s) = 0)" using la lb by auto
      moreover have "np_mean (last7 ?s) = Fin (sum_list ?A / real (length ?A))"
        using na np_mean_Fin F2 by simp
      moreover have "np_mean (prior7 ?s) = Fin (sum_list ?B / real (length ?B))"
        using nb np_mean_Fin F2 by simp
      ultimately show ?thesis
        using F2 False len ne unfolding last_vs_prior_7d_def Let_def by simp
    qed
  qed
qed

theorem last_vs_prior_7d_windows_witness:
  "length [Some 0, Some 1, Some (7::int), None] = length [1/4, 3/4, 1/2, 1 :: real]
   \<and> last_vs_prior_7d [Some 0, Some 1, Some 7, None] (map Fin [1/4, 3/4, 1/2, 1])
       = Inr (Some (Fin (5/8), Fin (1/4), Fin (3/8)))"
  using last_vs_prior_7d_windows [of "[Some 0, Some 1, Some 7, None]" "[1/4, 3/4, 1/2, 1]"]
  by simp

text \<open>
  C2 as stated fails: with one observed day in each window (day 0 and day 7), fewer
  than 7 days of history in both, the comparison still returns a result.
\<close>

theorem last_vs_prior_7d_short_history:
  "length (last7 (sort_index (zip [Some 0, Some 7] [Fin (1/4), Fin (1/2)]))) < 7
   \<and> length (prior7 (sort_index (zip [Some 0, Some 7] [Fin (1/4), Fin (1/2)]))) < 7
   \<and> last_vs_prior_7d [Some 0, Some 7] [Fin (1/4), Fin (1/2)]
       = Inr (Some (Fin (1/2), Fin (1/4), Fin (1/4)))"
  by (simp add: last_vs_prior_7d_def sort_index_def last7_def prior7_def index_max_def
      np_mean_def)

section \<open>Frames and the stages of the startup\<close>

lemma bind_err_Inr: "bind_err m f = Inr b \<longleftrightarrow> (\<exists>a. m = Inr a \<and> f a = Inr b)"
  by (cases m) auto

lemma df_get_setitem: "df_get (setitem df c col) c' = (if c' = c then Some col else df_get df c')"
  by (simp add: df_get_def setitem_def update_conv')

lemma nrows_setitem: "nrows (setitem df c col) = nrows df"
  by (simp add: setitem_def)

lemma to_numeric_cell_idem: "to_numeric_cell L (to_numeric_cell L x) = to_numeric_cell L x"
  by (cases x) (simp_all add: to_numeric_cell_def split: option.splits)

lemma df_get_coerce_fold:
  "df_get (fold (\<lambda>c d. case df_get d c of
                    Some (_, xs) \<Rightarrow> setitem d c (DNumber, map (to_numeric_cell L) xs)
                  | None \<Rightarrow> d) cs df) c =
     (if c \<in> set cs
      then map_option (\<lambda>(_, xs). (DNumber, map (to_numeric_cell L) xs)) (df_get df c)
      else df_get df c)"
proof (induction cs arbitrary: df)
  case Nil
  show ?case by simp
next
  case (Cons a cs)
  show ?case
    by (cases "df_get df a")
       (auto simp: Cons.IH df_get_setitem to_numeric_cell_idem split: prod.splits)
qed

lemma df_get_coerce_numeric:
  "df_get (coerce_numeric L df) c =
     (if c \<in> set numeric_cols
      then map_option (\<lambda>(_, xs). (DNumber, map (to_numeric_cell L) xs)) (df_get df c)
      else df_get df c)"
  unfolding coerce_numeric_def by (rule df_get_coerce_fold)

lemma gov_dollars_cell:
  "cell_flt (cell_div 100 (cell_fillna_zero (to_numeric_cell L (to_numeric_cell L x)))) =
     Fin (cell_num (to_numeric_cell L x) / 100)"
  by (cases x) (simp_all add: to_numeric_cell_def cell_fillna_zero_def isna_def split: option.splits)

lemma set_update_subset: "set (AList.update k v al) \<subseteq> insert (k, v) (set al)"
  by (induction al) auto

lemma wf_setitem:
  assumes "wf_frame df" and "length (snd col) = nrows df"
  shows "wf_frame (setitem df c col)"
  using assms set_update_subset [of c col "cols df"]
  by (cases col) (auto simp: wf_frame_def setitem_def)

lemma wf_df_get:
  assumes "wf_frame df" and "df_get df c = Some (d, xs)"
  shows "length xs = nrows df"
  using assms map_of_SomeD [of "cols df" c "(d, xs)"]
  by (auto simp: wf_frame_def df_get_def)

lemma wf_coerce_fold:
  "wf_frame df \<Longrightarrow>
   wf_frame (fold (\<lambda>c d. case df_get d c of
                    Some (_, xs) \<Rightarrow> setitem d c (DNumber, map (to_numeric_cell L) xs)
                  | None \<Rightarrow> d) cs df)
   \<and> nrows (fold (\<lambda>c d. case df_get d c of
                    Some (_, xs) \<Rightarrow> setitem d c (DNumber, map (to_numeric_cell L) xs)
                  | None \<Rightarrow> d) cs df) = nrows df"
proof (induction cs arbitrary: df)
  case Nil
  then show ?case by simp
next
  case (Cons a cs)
  show ?case
  proof (cases "df_get df a")
    case None
    then show ?thesis using Cons by simp
  next
    case (Some col)
    obtain d xs where col: "col = (d, xs)" by (cases col)
    have "wf_frame (setitem df a (DNumber, map (to_numeric_cell L) xs))"
      using wf_setitem [OF Cons.prems] wf_df_get [OF Cons.prems] Some col by simp
    from Cons.IH [OF this] show ?thesis using Some col by (simp add: nrows_setitem)
  qed
qed

lemma wf_coerce_numeric:
  "wf_frame df \<Longrightarrow> wf_frame (coerce_numeric L df) \<and> nrows (coerce_numeric L df) = nrows df"
  unfolding coerce_numeric_def by (rule wf_coerce_fold)

lemma length_bool_col:
  "wf_frame df \<Longrightarrow> length (snd (bool_col L df c)) = nrows df"
  using wf_df_get [of df c]
  by (auto simp: bool_col_def scalar_col_def to_bool_int_def split: option.splits)

lemma wf_money: "wf_frame df \<Longrightarrow> wf_frame (money L df) \<and> nrows (money L df) = nrows df"
  using wf_df_get [of df "''GOV''"]
  by (auto simp: money_def Let_def scalar_col_def nrows_setitem intro!: wf_setitem
      split: option.splits)

lemma present_setitem: "df_get df c \<noteq> None \<Longrightarrow> df_get (setitem df k v) c \<noteq> None"
  by (simp add: df_get_setitem)



lemma df_get_money:
  "c \<noteq> ''GOV'' \<Longrightarrow> c \<noteq> ''GOV_DOLLARS'' \<Longrightarrow> df_get (money L df) c = df_get df c"
  by (auto simp: money_def Let_def df_get_setitem split: option.splits)

lemma money_gov_dollars: "\<exists>xs. df_get (money L df) ''GOV_DOLLARS'' = Some (DNumber, xs)"
  by (auto simp: money_def Let_def df_get_setitem scalar_col_def split: option.splits)

lemma money_of_gov:
  assumes "df_get df ''GOV'' = Some (d, xs)"
  shows "df_get (money L df) ''GOV_DOLLARS'' =
           Some (DNumber, map (\<lambda>x. cell_div 100 (cell_fillna_zero (to_numeric_cell L x))) xs)"
  using assms by (simp add: money_def Let_def df_get_setitem)

lemma time_columns_Inr:
  assumes "time_columns L df0 = Inr df"
  shows "\<exists>d raw c1 c2 c3 c4 c5.
           df_get df0 ''CREATED_AT'' = Some (d, raw)
           \<and> length (snd c1) = length raw \<and> length (snd c2) = length raw
           \<and> length (snd c3) = length raw \<and> length (snd c4) = length raw
           \<and> length (snd c5) = length raw
           \<and> df = setitem (setitem (setitem (setitem (setitem df0 ''CREATED_AT'' c1)
                       ''DATE'' c2) ''HOUR'' c3) ''DOW'' c4) ''DOW_LABEL'' c5"
proof -
  obtain d raw where raw: "df_get df0 ''CREATED_AT'' = Some (d, raw)"
    using assms by (auto simp: time_columns_def split: option.splits)
  let ?created = "map (to_datetime_cell L) raw"
  have "df = setitem (setitem (setitem (setitem (setitem df0 ''CREATED_AT'' (DDatetime, ?created))
      ''DATE'' (DObject, map dt_date ?created)) ''HOUR'' (DNumber, map dt_hour ?created))
      ''DOW'' (DNumber, map dt_dayofweek ?created))
      ''DOW_LABEL'' (DObject, map (\<lambda>x. dow_label (dt_dayofweek x)) ?created)"
    using assms raw by (simp add: time_columns_def Let_def)
  moreover have "length (snd (DDatetime, ?created)) = length raw" by simp
  moreover have "length (snd (DObject, map dt_date ?created)) = length raw" by simp
  moreover have "length (snd (DNumber, map dt_hour ?created)) = length raw" by simp
  moreover have "length (snd (DNumber, map dt_dayofweek ?created)) = length raw" by simp
  moreover have "length (snd (DObject, map (\<lambda>x. dow_label (dt_dayofweek x)) ?created))
      = length raw" by simp
  ultimately show ?thesis using raw by blast
qed

lemma wf_time_columns:
  assumes "wf_frame df0" and "time_columns L df0 = Inr df"
  shows "wf_frame df \<and> nrows df = nrows df0"
proof -
  obtain d raw c1 c2 c3 c4 c5 where raw: "df_get df0 ''CREATED_AT'' = Some (d, raw)"
    and len: "length (snd c1) = length raw" "length (snd c2) = length raw"
      "length (snd c3) = length raw" "length (snd c4) = length raw"
      "length (snd c5) = length raw"
    and df: "df = setitem (setitem (setitem (setitem (setitem df0 ''CREATED_AT'' c1)
                       ''DATE'' c2) ''HOUR'' c3) ''DOW'' c4) ''DOW_LABEL'' c5"
    using time_columns_Inr [OF assms(2)] by blast
  have n: "length raw = nrows df0" using wf_df_get [OF assms(1) raw] .
  show ?thesis unfolding df using assms(1) len n by (simp add: wf_setitem nrows_setitem)
qed

lemma df_get_time_columns:
  assumes "time_columns L df0 = Inr df"
    and "c \<notin> set [''CREATED_AT'', ''DATE'', ''HOUR'', ''DOW'', ''DOW_LABEL'']"
  shows "df_get df c = df_get df0 c"
  using time_columns_Inr [OF assms(1)] assms(2) by (auto simp: df_get_setitem)


lemma to_bool_int_map_01: "to_bool_int_map L x = 0 \<or> to_bool_int_map L x = 1"
  by (simp add: to_bool_int_map_def Let_def split: option.splits)

lemma bool_col_flags:
  "\<exists>frs. bool_col L df c = (DNumber, frs) \<and> (\<forall>x\<in>set frs. x = Num 0 \<or> x = Num 1)"
  using to_bool_int_map_01 [of L]
  by (cases "df_get df c") (auto simp: bool_col_def scalar_col_def to_bool_int_def)

lemma wf_flag_columns:
  assumes "wf_frame df"
  shows "wf_frame (flag_columns L df) \<and> nrows (flag_columns L df) = nrows df"
proof -
  let ?df1 = "setitem df ''RECEIVED_CHARGEBACK'' (bool_col L df ''RECEIVED_CHARGEBACK'')"
  have w1: "wf_frame ?df1 \<and> nrows ?df1 = nrows df"
    using assms length_bool_col [OF assms, of L] by (simp add: wf_setitem nrows_setitem)
  then show ?thesis
    using length_bool_col [of ?df1 L]
    by (simp add: flag_columns_def Let_def wf_setitem nrows_setitem)
qed

lemma df_get_flag_columns:
  assumes "c \<notin> set [''RECEIVED_CHARGEBACK'', ''IS_FRAUDULENT_CHARGEBACK'', ''FRAUD_FLAG'']"
  shows "df_get (flag_columns L df) c = df_get df c"
  using assms by (simp add: flag_columns_def Let_def df_get_setitem)


lemma flag_columns_fraud_flag:
  "\<exists>frs. df_get (flag_columns L df) ''FRAUD_FLAG'' = Some (DNumber, frs)
         \<and> (\<forall>x\<in>set frs. x = Num 0 \<or> x = Num 1)"
  using bool_col_flags by (simp add: flag_columns_def Let_def df_get_setitem)

lemma preprocess_Inr:
  "preprocess L df0 = Inr df \<longleftrightarrow>
     (\<exists>df1. time_columns L df0 = Inr df1
            \<and> df = money L (flag_columns L (coerce_numeric L df1)))"
  by (auto simp: preprocess_def split: sum.splits)

lemma wf_preprocess:
  assumes "wf_frame df0" and "preprocess L df0 = Inr df"
  shows "wf_frame df \<and> nrows df = nrows df0"
proof -
  obtain df1 where t: "time_columns L df0 = Inr df1"
    and df: "df = money L (flag_columns L (coerce_numeric L df1))"
    using assms(2) preprocess_Inr by blast
  have "wf_frame df1 \<and> nrows df1 = nrows df0" using wf_time_columns [OF assms(1) t] .
  then have "wf_frame (coerce_numeric L df1) \<and> nrows (coerce_numeric L df1) = nrows df0"
    using wf_coerce_numeric [of df1 L] by simp
  then have "wf_frame (flag_columns L (coerce_numeric L df1))
      \<and> nrows (flag_columns L (coerce_numeric L df1)) = nrows df0"
    using wf_flag_columns [of "coerce_numeric L df1" L] by simp
  then show ?thesis unfolding df using wf_money [of "flag_columns L (coerce_numeric L df1)" L]
    by simp
qed

lemma preprocess_fraud_flag:
  assumes "preprocess L df0 = Inr df"
  shows "\<exists>frs. df_get df ''FRAUD_FLAG'' = Some (DNumber, frs)
            \<and> (\<forall>x\<in>set frs. x = Num 0 \<or> x = Num 1)"
  using assms flag_columns_fraud_flag by (auto simp: preprocess_Inr df_get_money)

lemma preprocess_gov_dollars:
  assumes "preprocess L df0 = Inr df"
  shows "\<exists>xs. df_get df ''GOV_DOLLARS'' = Some (DNumber, xs)"
  using assms money_gov_dollars by (auto simp: preprocess_Inr)


lemma preprocess_of_gov:
  assumes "preprocess L df0 = Inr df" and "df_get df0 ''GOV'' = Some (d, xs)"
  shows "df_get df ''GOV_DOLLARS'' =
      Some (DNumber, map (\<lambda>x. cell_div 100
                (cell_fillna_zero (to_numeric_cell L (to_numeric_cell L x)))) xs)"
proof -
  obtain df1 where t: "time_columns L df0 = Inr df1"
    and df: "df = money L (flag_columns L (coerce_numeric L df1))"
    using assms(1) preprocess_Inr by blast
  have "df_get df1 ''GOV'' = Some (d, xs)"
    using df_get_time_columns [OF t, of "''GOV''"] assms(2) by simp
  then have "df_get (coerce_numeric L df1) ''GOV'' = Some (DNumber, map (to_numeric_cell L) xs)"
    by (simp add: df_get_coerce_numeric numeric_cols_def)
  then have "df_get (flag_columns L (coerce_numeric L df1)) ''GOV''
      = Some (DNumber, map (to_numeric_cell L) xs)"
    by (simp add: df_get_flag_columns)
  from money_of_gov [OF this, of L] show ?thesis unfolding df by (simp add: comp_def)
qed

lemma wf_add_gov_bins:
  assumes "wf_frame df" and "add_gov_bins L df = Inr df'"
  shows "wf_frame df' \<and> nrows df' = nrows df
     \<and> (\<forall>c. c \<noteq> ''GOV_BIN'' \<and> c \<noteq> ''GOV_BIN_LABEL'' \<longrightarrow> df_get df' c = df_get df c)"
proof (cases "df_get df ''GOV_DOLLARS''")
  case None
  then show ?thesis using assms by (simp add: add_gov_bins_def)
next
  case (Some col)
  obtain d xs where col: "col = (d, xs)" by (cases col)
  have n: "length xs = nrows df" using wf_df_get [OF assms(1)] Some col by simp
  show ?thesis
    using Some col n assms
    by (auto simp: add_gov_bins_def bind_err_Inr wf_setitem nrows_setitem df_get_setitem)
qed

lemma daily_rate_zero: "daily_rate x (Fin 0) = Fin 0"
  by (cases x) (simp_all add: daily_rate_def replace_zero_nan_def fillna_zero_def)

lemma daily_row_rates:
  assumes "daily df = Inr rows" and "row \<in> set rows"
  shows "chargeback_rate row = daily_rate (Fin (chargebacks row)) (Fin (real (deliveries row)))
       \<and> fraud_rate row = daily_rate (Fin (fraudulent row)) (Fin (real (deliveries row)))"
  using assms
  by (auto simp: daily_def bind_err_Inr Let_def split: prod.splits)

lemma startup_Inr:
  assumes "startup L df0 = Inr a"
  obtains df df' where
    "preprocess L df0 = Inr df"
    "overall_cb_rate df = Inr (kpi_cb_rate a)"
    "overall_fraud_rate df = Inr (kpi_fraud_rate a)"
    "kpi_cb_cost a = overall_cb_cost df"
    "kpi_avg_gov a = avg_gov df"
    "kpi_avg_sift a = avg_sift df"
    "daily df = Inr (tbl_daily a)"
    "kpi_date_note (tbl_daily a) = Inr (date_range a)"
    "fraud_by_platform df = Inr (tbl_platform a)"
    "fraud_by_addr df = Inr (tbl_addr a)"
    "fraud_by_failed df = Inr (tbl_failed a)"
    "add_gov_bins L df = Inr df'"
    "fraud_by_gov_bin df' = Inr (tbl_gov_bin a)"
    "insight_addresses (tbl_addr a) = Inr (top_addresses a)"
    "predictors L df' = Inr (tbl_predictors a)"
    "glossary a = glossary_items"
    "rec_cards a = build_rec_cards None"
  using assms unfolding startup_def bind_err_Inr by force

section \<open>Group tables\<close>

lemma set_unique: "set (unique xs) = set xs"
  by (simp add: unique_def)

lemma distinct_unique: "distinct (unique xs)"
  by (simp add: unique_def)

lemma group_rows_subset: "set (group_rows ks xs k) \<subseteq> set xs"
  by (auto simp: group_rows_def dest: set_zip_rightD)

lemma group_rows_nonempty:
  assumes "length ks = length xs" and "k \<in> set ks"
  shows "group_rows ks xs k \<noteq> []"
proof -
  from assms(2) obtain i where i: "i < length ks" "ks ! i = k"
    by (auto simp: in_set_conv_nth)
  then have "(k, xs ! i) \<in> set (zip ks xs)"
    using assms(1) by (auto simp: set_zip)
  then show ?thesis by (auto simp: group_rows_def filter_empty_conv)
qed

lemma col_mean_flags:
  assumes "g \<noteq> []" and "\<forall>x\<in>set g. x = Num 0 \<or> x = Num 1"
  shows "\<exists>v. col_mean g = Fin v \<and> 0 \<le> v \<and> v \<le> 1"
proof -
  have m: "map cell_flt g = map Fin (map cell_num g)"
    using assms(2) by (induction g) auto
  have lo: "0 \<le> sum_list (map cell_num g)"
    using assms(2) by (intro sum_list_nonneg) auto
  have "sum_list (map cell_num g) \<le> sum_list (map (\<lambda>_. 1) g)"
    using assms(2) by (intro sum_list_mono) auto
  then have hi: "sum_list (map cell_num g) \<le> real (length g)"
    by (simp add: sum_list_triv)
  have "col_mean g = Fin (sum_list (map cell_num g) / real (length g))"
    unfolding col_mean_def m using np_mean_Fin [of "map cell_num g"] assms(1) by simp
  moreover have "sum_list (map cell_num g) / real (length g) \<le> 1"
    using hi assms(1) by (simp add: divide_le_eq)
  ultimately show ?thesis using lo by simp
qed

lemma group_mean_table_rates:
  assumes "length ks = length xs" and "\<forall>x\<in>set xs. x = Num 0 \<or> x = Num 1"
  shows "fst ` set (group_mean_table ks xs) = set ks
       \<and> (\<forall>(k, r)\<in>set (group_mean_table ks xs). \<exists>v. r = Fin v \<and> 0 \<le> v \<and> v \<le> 1)"
proof -
  have k: "fst ` set (group_mean_table ks xs) = set ks"
    by (force simp: group_mean_table_def set_unique)
  have "\<exists>v. col_mean (group_rows ks xs k) = Fin v \<and> 0 \<le> v \<and> v \<le> 1" if "k \<in> set ks" for k
    using col_mean_flags [OF group_rows_nonempty [OF assms(1) that]]
      group_rows_subset [of ks xs k] assms(2) by blast
  then show ?thesis using k by (auto simp: group_mean_table_def set_unique)
qed

lemma fraud_by_table:
  assumes "wf_frame df"
    and "df_get df ''FRAUD_FLAG'' = Some (DNumber, frs)"
    and "\<forall>x\<in>set frs. x = Num 0 \<or> x = Num 1"
    and "fraud_by df c = Inr t"
  shows "fst ` set t = col_cells df c
       \<and> (\<forall>(k, r)\<in>set t. \<exists>v. r = Fin v \<and> 0 \<le> v \<and> v \<le> 1)"
proof (cases "df_get df c")
  case None
  then show ?thesis using assms(4) by (simp add: fraud_by_def col_cells_def)
next
  case (Some col)
  obtain d ks where col: "col = (d, ks)" by (cases col)
  have len: "length ks = length frs"
    using wf_df_get [OF assms(1)] Some col assms(2) by simp
  have t: "t = group_mean_table ks frs"
    using assms(2,4) Some col by (simp add: fraud_by_def getitem_def)
  show ?thesis
    using group_mean_table_rates [OF len assms(3)] Some col t by (simp add: col_cells_def)
qed

lemma set_sort_by_key: "set (sort_by_key t) = set t"
  by (simp add: sort_by_key_def)

section \<open>Tables without rows\<close>







section \<open>Correlation ranking\<close>

lemma keys_drop_labels:
  "map fst (drop_labels s) =
     filter (\<lambda>c. c \<notin> set [''FRAUD_FLAG'', ''IS_FRAUDULENT_CHARGEBACK'']) (map fst s)"
  by (induction s) (auto simp: drop_labels_def)

lemma filter_keys_update:
  assumes "\<not> P k"
  shows "filter P (map fst (AList.update k v al)) = filter P (map fst al)"
  using assms by (simp add: update_keys)

lemma sort_values_props:
  "mset (sort_values s) = mset s \<and> sorted_wrt corr_le (map snd (sort_values s))"
proof -
  let ?key = "\<lambda>(c :: string, r :: real option).
                case r of None \<Rightarrow> (1 :: nat, 0 :: real) | Some v \<Rightarrow> (0, v)"
  have "sorted (map ?key (sort_key ?key s))" by (rule sorted_sort_key)
  then have "sorted_wrt (\<lambda>x y. ?key x \<le> ?key y) (sort_key ?key s)"
    by (simp add: sorted_map)
  then have "sorted_wrt (\<lambda>x y. corr_le (snd x) (snd y)) (sort_key ?key s)"
    by (rule sorted_wrt_mono_rel [rotated])
      (auto simp: corr_le_def less_eq_prod_def split: option.splits)
  then show ?thesis by (simp add: sort_values_def sorted_wrt_map)
qed

lemma predictors_Inr:
  assumes "predictors L df = Inr p"
  shows "\<exists>d frs. df_get df ''FRAUD_FLAG'' = Some (d, frs)
           \<and> (\<forall>(c, r)\<in>set p. c \<noteq> ''FRAUD_FLAG'' \<and> c \<noteq> ''IS_FRAUDULENT_CHARGEBACK''
                 \<and> (\<exists>xs. (c, DNumber, xs) \<in> set (cols df) \<and> r = pearson L xs frs))
           \<and> mset (map fst p) \<subseteq>#
               mset (filter (\<lambda>c. c \<notin> set [''FRAUD_FLAG'', ''IS_FRAUDULENT_CHARGEBACK''])
                      (map fst (select_number df)))
           \<and> length p =
               min 20 (length (filter (\<lambda>c. c \<notin> set [''FRAUD_FLAG'', ''IS_FRAUDULENT_CHARGEBACK''])
                      (map fst (select_number df))))
           \<and> sorted_wrt corr_le (map snd p)"
proof -
  let ?lab = "\<lambda>c. c \<notin> set [''FRAUD_FLAG'', ''IS_FRAUDULENT_CHARGEBACK'']"
  from assms obtain d frs where ff: "df_get df ''FRAUD_FLAG'' = Some (d, frs)"
    by (auto simp: predictors_def corr_with_fraud_def getitem_def bind_err_Inr
        split: option.splits)
  define num where "num = AList.update ''FRAUD_FLAG'' (DNumber, frs) (select_number df)"
  define s where "s = map (\<lambda>(c, d, xs). (c, pearson L xs frs)) num"
  define dl where "dl = drop_labels s"
  have p: "p = sort_values (take 20 dl)"
    using assms ff
    by (auto simp: predictors_def corr_with_fraud_def getitem_def Let_def dl_def s_def num_def
        sort_values_def)
  have keys: "map fst dl = filter ?lab (map fst (select_number df))"
  proof -
    have "map fst s = map fst num" by (simp add: s_def comp_def case_prod_beta)
    then have "map fst dl = filter ?lab (map fst num)"
      by (simp add: dl_def keys_drop_labels)
    then show ?thesis unfolding num_def by (simp add: filter_keys_update)
  qed
  have m: "mset p = mset (take 20 dl)" and srt: "sorted_wrt corr_le (map snd p)"
    using sort_values_props [of "take 20 dl"] p by simp_all
  have el: "c \<noteq> ''FRAUD_FLAG'' \<and> c \<noteq> ''IS_FRAUDULENT_CHARGEBACK''
          \<and> (\<exists>xs. (c, DNumber, xs) \<in> set (cols df) \<and> r = pearson L xs frs)"
    if "(c, r) \<in> set p" for c r
  proof -
    from that m have "(c, r) \<in> set (take 20 dl)" by (metis set_mset_mset)
    then have "(c, r) \<in> set dl" by (rule in_set_takeD)
    then have lab: "?lab c" and "(c, r) \<in> set s"
      by (auto simp: dl_def drop_labels_def)
    then obtain dd xs where x: "(c, dd, xs) \<in> set num" and r: "r = pearson L xs frs"
      by (auto simp: s_def)
    from x lab have "(c, dd, xs) \<in> set (select_number df)"
      using set_update_subset [of "''FRAUD_FLAG''" "(DNumber, frs)" "select_number df"]
      unfolding num_def by auto
    then have "dd = DNumber \<and> (c, dd, xs) \<in> set (cols df)"
      by (auto simp: select_number_def)
    with lab r show ?thesis by auto
  qed
  have "mset (map fst p) = mset (map fst (take 20 dl))"
    using m by (metis mset_map)
  also have "\<dots> = mset (take 20 (map fst dl))" by (simp add: take_map)
  also have "\<dots> \<subseteq># mset (map fst dl)"
    by (metis append_take_drop_id mset_append mset_subset_eq_add_left)
  finally have sub: "mset (map fst p) \<subseteq># mset (filter ?lab (map fst (select_number df)))"
    using keys by simp
  have "length p = length (take 20 dl)" using m by (metis size_mset)
  then have len: "length p = min 20 (length (filter ?lab (map fst (select_number df))))"
    using keys by (metis length_map length_take min.commute)
  show ?thesis using ff el sub len srt by blast
qed

section \<open>The startup on the sample tables\<close>

lemma startup_sample_frame:
  "startup sample_lib sample_frame =
     Inr \<lparr> kpi_cb_rate = 1 / 2,
           kpi_fraud_rate = 1 / 2,
           kpi_cb_cost = 300,
           kpi_avg_gov = Fin (10 / 3),
           kpi_avg_sift = Fin 50,
           tbl_daily =
             [\<lparr> DATE = Date 0, deliveries = 2, chargebacks = 1, fraudulent = 1,
                 cb_cost = 100, day_avg_sift = Fin 50, day_avg_gov = Fin 5,
                 chargeback_rate = Fin (1 / 2), fraud_rate = Fin (1 / 2) \<rparr>,
              \<lparr> DATE = Date 7, deliveries = 0, chargebacks = 0, fraudulent = 0,
                 cb_cost = 200, day_avg_sift = Fin 50, day_avg_gov = Fin 0,
                 chargeback_rate = Fin 0, fraud_rate = Fin 0 \<rparr>],
           tbl_platform = [(Str ''ios'', Fin (1 / 2)), (Str ''web'', Fin 0)],
           tbl_addr = [],
           tbl_failed = [],
           tbl_gov_bin = [(Interval 8 10, Fin 1), (Interval 0 2, Fin 0)],
           tbl_predictors =
             [(''CHARGEBACK_COST'', Some 0), (''GOV'', Some 1),
              (''RECEIVED_CHARGEBACK'', Some 1), (''GOV_DOLLARS'', Some 1),
              (''SIFT_CREATE_ORDER_PA_SCORE'', None), (''HOUR'', None), (''DOW'', None)],
           date_range = Some (0, 7),
           top_addresses = None,
           glossary = glossary_items,
           rec_cards = map (\<lambda>k. (k, False)) REC_DEFS \<rparr>"
  by code_simp

lemma startup_empty_frame:
  "startup sample_lib empty_frame =
     Inr \<lparr> kpi_cb_rate = 0,
           kpi_fraud_rate = 0,
           kpi_cb_cost = 0,
           kpi_avg_gov = NaN,
           kpi_avg_sift = NaN,
           tbl_daily = [],
           tbl_platform = [],
           tbl_addr = [],
           tbl_failed = [],
           tbl_gov_bin = [],
           tbl_predictors =
             [(''GOV'', None), (''RECEIVED_CHARGEBACK'', None), (''CHARGEBACK_COST'', None),
              (''SIFT_CREATE_ORDER_PA_SCORE'', None), (''CX_UNIQUE_ADDRESSES'', None),
              (''FAIL_CHARGES_1D'', None), (''HOUR'', None), (''DOW'', None),
              (''GOV_DOLLARS'', None)],
           date_range = None,
           top_addresses = None,
           glossary = glossary_items,
           rec_cards = map (\<lambda>k. (k, False)) REC_DEFS \<rparr>"
  by code_simp

lemma preprocess_empty_deliveries:
  "map_sum id overall_deliveries (preprocess sample_lib empty_frame) = Inr 0"
  by code_simp

section \<open>Rates\<close>

text \<open>
  C4.  A rate with a zero denominator is exactly 0.0, never an error, \<open>NaN\<close> or an
  infinity: \<open>safe_div\<close> with divisor 0 returns 0 for every numerator, so the overall
  chargeback and fraud rates are 0 when there is no delivery; the rate formula of the
  daily series gives 0 for every numerator, so the two rates of a day without
  deliveries are 0.
\<close>

theorem zero_denominator_rates:
  "safe_div n 0 = 0
   \<and> daily_rate x (Fin 0) = Fin 0
   \<and> (\<forall>a. startup L df0 = Inr a \<longrightarrow>
          (\<forall>row\<in>set (tbl_daily a). deliveries row = 0 \<longrightarrow>
             chargeback_rate row = Fin 0 \<and> fraud_rate row = Fin 0))
   \<and> (\<forall>a df. startup L df0 = Inr a \<and> preprocess L df0 = Inr df
            \<and> overall_deliveries df = 0 \<longrightarrow>
          kpi_cb_rate a = 0 \<and> kpi_fraud_rate a = 0)"
proof -
  have d: "chargeback_rate row = Fin 0 \<and> fraud_rate row = Fin 0"
    if "startup L df0 = Inr a" "row \<in> set (tbl_daily a)" "deliveries row = 0" for a row
  proof -
    from that(1) obtain df where "daily df = Inr (tbl_daily a)" by (rule startup_Inr)
    from daily_row_rates [OF this that(2)] that(3) show ?thesis
      by (simp add: daily_rate_zero)
  qed
  have k: "kpi_cb_rate a = 0 \<and> kpi_fraud_rate a = 0"
    if "startup L df0 = Inr a" "preprocess L df0 = Inr df" "overall_deliveries df = 0" for a df
  proof -
    from that(1) obtain df1 where p: "preprocess L df0 = Inr df1"
      and c: "overall_cb_rate df1 = Inr (kpi_cb_rate a)"
      and f: "overall_fraud_rate df1 = Inr (kpi_fraud_rate a)" by (rule startup_Inr)
    from p that(2) have "df1 = df" by simp
    with c f that(3) show ?thesis
      by (auto simp: overall_cb_rate_def overall_fraud_rate_def bind_err_Inr safe_div_def)
  qed
  show ?thesis using d k by (simp add: safe_div_def daily_rate_zero)
qed

theorem zero_denominator_rates_witness:
  "safe_div 7 0 = 0
   \<and> daily_rate (Fin 3) (Fin 0) = Fin 0
   \<and> map_sum id (\<lambda>a. map (\<lambda>r. (deliveries r, chargeback_rate r, fraud_rate r)) (tbl_daily a))
         (startup sample_lib sample_frame) = Inr [(2, Fin (1 / 2), Fin (1 / 2)), (0, Fin 0, Fin 0)]
   \<and> map_sum id overall_deliveries (preprocess sample_lib empty_frame) = Inr 0
   \<and> map_sum id (\<lambda>a. (kpi_cb_rate a, kpi_fraud_rate a)) (startup sample_lib empty_frame)
       = Inr (0, 0)"
  using zero_denominator_rates [of 7 "Fin 3" sample_lib sample_frame]
    zero_denominator_rates [of 7 "Fin 3" sample_lib empty_frame]
    startup_sample_frame startup_empty_frame preprocess_empty_deliveries
  by simp

section \<open>Optional columns\<close>

text \<open>
  C5.  The claim is that a table missing an optional column, the chargeback cost for
  one, still starts up with an empty aggregate in its place.  On the sample table
  without its \<open>CHARGEBACK_COST\<close> column the startup ends in the \<open>KeyError\<close> of
  the daily aggregation, which names the column without testing for it.
\<close>

theorem startup_without_chargeback_cost:
  "startup sample_lib sample_frame_no_cost = Inl (KeyError ''CHARGEBACK_COST'')"
  by code_simp

section \<open>Order values\<close>

text \<open>
  C3.  The claim is that a missing or unparseable order value is left out of the
  average order value, as it is left out of the average risk score.  On the sample
  table, whose three order values are 1000, absent and unparseable, the mean of the
  present values is 10.00; the average order value KPI is 10/3, the two absent values
  counted as orders of value 0, because the order values are zero-filled before the
  conversion to major units.
\<close>

theorem avg_gov_is_not_mean_of_present:
  "df_get sample_frame ''GOV'' = Some (DObject, [Num 1000, NA, Str ''x''])
   \<and> spec_avg_order_value sample_lib [Num 1000, NA, Str ''x''] = Fin 10
   \<and> map_sum id kpi_avg_gov (startup sample_lib sample_frame) = Inr (Fin (10 / 3))
   \<and> df_get sample_frame ''SIFT_CREATE_ORDER_PA_SCORE'' = Some (DNumber, [Num 50, Num 50, NA])
   \<and> map_sum id kpi_avg_sift (startup sample_lib sample_frame) = Inr (Fin 50)"
proof -
  have "spec_avg_order_value sample_lib [Num 1000, NA, Str ''x''] = Fin 10"
    by code_simp
  then show ?thesis
    by (simp add: startup_sample_frame) (simp add: sample_frame_def df_get_def)
qed

section \<open>Grouped fraud rates\<close>

text \<open>
  C9.  In each of the four grouped fraud-rate tables (by platform, by lifetime
  unique-address count, by 1-day failed-charge count and by order-value decile bucket)
  of a well-formed table, every reported rate is a number in [0, 1], and the groups of
  a table are exactly the keys observed in its key column: a group with no observed row
  never appears.
\<close>

theorem grouped_rates_in_unit_interval:
  assumes "wf_frame df0" and "startup L df0 = Inr a"
  shows "(\<forall>t\<in>set [tbl_platform a, tbl_addr a, tbl_failed a, tbl_gov_bin a].
            \<forall>(k, r)\<in>set t. \<exists>v. r = Fin v \<and> 0 \<le> v \<and> v \<le> 1)
       \<and> (\<exists>df df'. preprocess L df0 = Inr df \<and> add_gov_bins L df = Inr df'
             \<and> fst ` set (tbl_platform a) = col_cells df ''PLATFORM''
             \<and> fst ` set (tbl_addr a) = col_cells df ''CX_UNIQUE_ADDRESSES''
             \<and> fst ` set (tbl_failed a) = col_cells df ''FAIL_CHARGES_1D''
             \<and> fst ` set (tbl_gov_bin a) = col_cells df' ''GOV_BIN_LABEL'')"
proof -
  from assms(2) obtain df df' where
    p: "preprocess L df0 = Inr df" and
    t1: "fraud_by_platform df = Inr (tbl_platform a)" and
    t2: "fraud_by_addr df = Inr (tbl_addr a)" and
    t3: "fraud_by_failed df = Inr (tbl_failed a)" and
    g: "add_gov_bins L df = Inr df'" and
    t4: "fraud_by_gov_bin df' = Inr (tbl_gov_bin a)"
    by (rule startup_Inr)
  have w: "wf_frame df" using wf_preprocess [OF assms(1) p] by simp
  obtain frs where f: "df_get df ''FRAUD_FLAG'' = Some (DNumber, frs)"
    and f01: "\<forall>x\<in>set frs. x = Num 0 \<or> x = Num 1"
    using preprocess_fraud_flag [OF p] by blast
  have w': "wf_frame df'" and f': "df_get df' ''FRAUD_FLAG'' = Some (DNumber, frs)"
    using wf_add_gov_bins [OF w g] f by auto
  note tab = fraud_by_table [OF w f f01] and tab' = fraud_by_table [OF w' f' f01]
  have r1: "fst ` set (tbl_platform a) = col_cells df ''PLATFORM''
       \<and> (\<forall>(k, r)\<in>set (tbl_platform a). \<exists>v. r = Fin v \<and> 0 \<le> v \<and> v \<le> 1)"
    using tab t1 by (simp add: fraud_by_platform_def)
  obtain u2 where u2: "fraud_by df ''CX_UNIQUE_ADDRESSES'' = Inr u2" "tbl_addr a = sort_by_key u2"
    using t2 by (auto simp: fraud_by_addr_def bind_err_Inr)
  have r2: "fst ` set (tbl_addr a) = col_cells df ''CX_UNIQUE_ADDRESSES''
       \<and> (\<forall>(k, r)\<in>set (tbl_addr a). \<exists>v. r = Fin v \<and> 0 \<le> v \<and> v \<le> 1)"
    using tab [OF u2(1)] u2(2) by (simp add: set_sort_by_key)
  obtain u3 where u3: "fraud_by df ''FAIL_CHARGES_1D'' = Inr u3" "tbl_failed a = sort_by_key u3"
    using t3 by (auto simp: fraud_by_failed_def bind_err_Inr)
  have r3: "fst ` set (tbl_failed a) = col_cells df ''FAIL_CHARGES_1D''
       \<and> (\<forall>(k, r)\<in>set (tbl_failed a). \<exists>v. r = Fin v \<and> 0 \<le> v \<and> v \<le> 1)"
    using tab [OF u3(1)] u3(2) by (simp add: set_sort_by_key)
  have r4: "fst ` set (tbl_gov_bin a) = col_cells df' ''GOV_BIN_LABEL''
       \<and> (\<forall>(k, r)\<in>set (tbl_gov_bin a). \<exists>v. r = Fin v \<and> 0 \<le> v \<and> v \<le> 1)"
  proof -
    have "df_get df ''GOV_DOLLARS'' \<noteq> None"
      using preprocess_gov_dollars [OF p] by auto
    then have "has_col df' ''GOV_DOLLARS''"
      using wf_add_gov_bins [OF w g] by (auto simp: has_col_def)
    then show ?thesis using tab' t4 by (simp add: fraud_by_gov_bin_def)
  qed
  show ?thesis using r1 r2 r3 r4 p g by auto
qed

theorem grouped_rates_in_unit_interval_witness:
  "wf_frame sample_frame
   \<and> map_sum id (\<lambda>a. (tbl_platform a, tbl_addr a, tbl_failed a, tbl_gov_bin a))
         (startup sample_lib sample_frame)
       = Inr ([(Str ''ios'', Fin (1 / 2)), (Str ''web'', Fin 0)], [], [],
              [(Interval 8 10, Fin 1), (Interval 0 2, Fin 0)])"
proof -
  have w: "wf_frame sample_frame" by (simp add: wf_frame_def sample_frame_def)
  show ?thesis
    using w grouped_rates_in_unit_interval [OF w startup_sample_frame]
    by (simp add: startup_sample_frame)
qed

section \<open>A table without records\<close>




section \<open>The predictor chart\<close>

text \<open>
  C1 as stated fails: on the sample table the ranking keeps the chargeback flag
  \<open>RECEIVED_CHARGEBACK\<close>, and its first entry is the correlation of the smallest
  magnitude, 0, ahead of three correlations of magnitude 1: the order is ascending by
  the signed value.
\<close>

theorem predictors_keep_chargeback_flag_ascending:
  "map_sum id tbl_predictors (startup sample_lib sample_frame) =
     Inr [(''CHARGEBACK_COST'', Some 0), (''GOV'', Some 1), (''RECEIVED_CHARGEBACK'', Some 1),
          (''GOV_DOLLARS'', Some 1), (''SIFT_CREATE_ORDER_PA_SCORE'', None),
          (''HOUR'', None), (''DOW'', None)]"
  by (simp add: startup_sample_frame)

text \<open>
  C1, as amended.  The correlation ranking holds, for columns of a numeric dtype other
  than \<open>FRAUD_FLAG\<close> and \<open>IS_FRAUDULENT_CHARGEBACK\<close>, the Pearson correlation of the
  column with the fraud flag; the chargeback flag \<open>RECEIVED_CHARGEBACK\<close> is not
  excluded.  No column appears more often than the frame has it, the ranking has 20
  entries or, when there are fewer such columns, one for each of them, and it is
  sorted by the signed correlation, ascending, undefined correlations last.
\<close>

theorem predictor_ranking:
  assumes "startup L df0 = Inr a"
  shows "\<exists>df df' d frs.
           preprocess L df0 = Inr df \<and> add_gov_bins L df = Inr df'
           \<and> df_get df' ''FRAUD_FLAG'' = Some (d, frs)
           \<and> (\<forall>(c, r)\<in>set (tbl_predictors a).
                 c \<noteq> ''FRAUD_FLAG'' \<and> c \<noteq> ''IS_FRAUDULENT_CHARGEBACK''
                 \<and> (\<exists>xs. (c, DNumber, xs) \<in> set (cols df') \<and> r = pearson L xs frs))
           \<and> mset (map fst (tbl_predictors a)) \<subseteq>#
               mset (filter (\<lambda>c. c \<notin> set [''FRAUD_FLAG'', ''IS_FRAUDULENT_CHARGEBACK''])
                      (map fst (select_number df')))
           \<and> length (tbl_predictors a) =
               min 20 (length (filter (\<lambda>c. c \<notin> set [''FRAUD_FLAG'', ''IS_FRAUDULENT_CHARGEBACK''])
                      (map fst (select_number df'))))
           \<and> sorted_wrt corr_le (map snd (tbl_predictors a))"
proof -
  from assms obtain df df' where
    p: "preprocess L df0 = Inr df" and
    g: "add_gov_bins L df = Inr df'" and
    r: "predictors L df' = Inr (tbl_predictors a)"
    by (rule startup_Inr)
  from predictors_Inr [OF r] p g show ?thesis by blast
qed

theorem predictor_ranking_witness:
  "map_sum id (\<lambda>a. map snd (tbl_predictors a)) (startup sample_lib sample_frame)
     = Inr [Some 0, Some 1, Some 1, Some 1, None, None, None]
   \<and> sorted_wrt corr_le [Some 0, Some 1, Some 1, Some 1, None, None, None]"
proof -
  have s: "sorted_wrt corr_le (map snd (tbl_predictors a))"
    if "startup sample_lib sample_frame = Inr a" for a
    using predictor_ranking [OF that] by blast
  from s [OF startup_sample_frame] show ?thesis
    by (simp add: startup_sample_frame)
qed

end
